theory Spec2Isabelle
  imports Complex_Main "HOL-Library.AList"
begin

section \<open>Numbers and errors of the Python program\<close>

text \<open>
  The program \<^verbatim>\<open>DCF_Models.py\<close> computes on Python floats and NumPy \<^verbatim>\<open>float64\<close>
  arrays. A float is modelled by its value: a finite float is the real number it denotes
  (rounding, overflow, underflow and the sign of zero are not modelled; a zero is taken
  as \<^verbatim>\<open>+0.0\<close>), and the three special values of IEEE arithmetic are kept, because the
  program can produce them (division by zero on a NumPy scalar) and can receive them.
\<close>

datatype f64 = Fin real | PInf | NInf | NaN

text \<open>The exceptions of Python that the four functions can raise.\<close>

datatype py_error =
  ValueError | TypeError | IndexError | KeyError | ZeroDivisionError | OverflowError

text \<open>A Python scalar is an \<^verbatim>\<open>int\<close> or a \<^verbatim>\<open>float\<close>; \<^verbatim>\<open>years\<close> is the one
  argument whose being an \<^verbatim>\<open>int\<close> matters (array shapes, \<^verbatim>\<open>range\<close>, list repetition).\<close>

datatype pynum = PInt int | PFloat f64

fun is_finite :: "f64 \<Rightarrow> bool" where
  "is_finite (Fin _) = True"
| "is_finite _ = False"

fun f64_neg :: "f64 \<Rightarrow> f64" where
  "f64_neg (Fin a) = Fin (- a)"
| "f64_neg PInf = NInf"
| "f64_neg NInf = PInf"
| "f64_neg NaN = NaN"

fun f64_add :: "f64 \<Rightarrow> f64 \<Rightarrow> f64" where
  "f64_add (Fin a) (Fin b) = Fin (a + b)"
| "f64_add NaN _ = NaN"
| "f64_add _ NaN = NaN"
| "f64_add PInf NInf = NaN"
| "f64_add NInf PInf = NaN"
| "f64_add PInf _ = PInf"
| "f64_add _ PInf = PInf"
| "f64_add NInf _ = NInf"
| "f64_add _ NInf = NInf"

definition f64_sub :: "f64 \<Rightarrow> f64 \<Rightarrow> f64" where
  "f64_sub x y = f64_add x (f64_neg y)"

text \<open>The sign of a value that is not a NaN: \<open>-1\<close>, \<open>0\<close> or \<open>1\<close>.\<close>

fun f64_sign :: "f64 \<Rightarrow> int" where
  "f64_sign (Fin a) = (if a = 0 then 0 else if 0 < a then 1 else - 1)"
| "f64_sign PInf = 1"
| "f64_sign NInf = - 1"
| "f64_sign NaN = 0"

definition signed_inf :: "int \<Rightarrow> f64" where
  "signed_inf s = (if s = 0 then NaN else if 0 < s then PInf else NInf)"

fun f64_mul :: "f64 \<Rightarrow> f64 \<Rightarrow> f64" where
  "f64_mul (Fin a) (Fin b) = Fin (a * b)"
| "f64_mul NaN _ = NaN"
| "f64_mul _ NaN = NaN"
| "f64_mul x y = signed_inf (f64_sign x * f64_sign y)"

text \<open>
  Division of a NumPy \<^verbatim>\<open>float64\<close> scalar (\<^verbatim>\<open>true_divide\<close>): a zero divisor raises
  nothing (a \<^verbatim>\<open>RuntimeWarning\<close> is printed) and the quotient is an infinity or a NaN.
\<close>

fun np_divide :: "f64 \<Rightarrow> f64 \<Rightarrow> f64" where
  "np_divide (Fin a) (Fin b) =
     (if b = 0 then (if a = 0 then NaN else if 0 < a then PInf else NInf) else Fin (a / b))"
| "np_divide NaN _ = NaN"
| "np_divide _ NaN = NaN"
| "np_divide (Fin a) _ = Fin 0"
| "np_divide PInf (Fin b) = (if 0 \<le> b then PInf else NInf)"
| "np_divide NInf (Fin b) = (if 0 \<le> b then NInf else PInf)"
| "np_divide _ _ = NaN"

text \<open>The largest finite \<^verbatim>\<open>float64\<close>, \<^verbatim>\<open>sys.float_info.max\<close>.\<close>

definition max_float :: real where
  "max_float = (2 ^ 53 - 1) * 2 ^ 971"

text \<open>
  \<^verbatim>\<open>x ** -i\<close> for a Python float \<^verbatim>\<open>x\<close> and an integer \<^verbatim>\<open>i >= 1\<close>. Unlike the
  operations of NumPy, the power of a Python float raises: \<^verbatim>\<open>ZeroDivisionError\<close> for
  a zero base, \<^verbatim>\<open>OverflowError\<close> when the result is beyond the largest float (the
  result is compared unrounded). A result too small for a float is \<^verbatim>\<open>0.0\<close> in Python
  and raises nothing. (Line 67 computes \<^verbatim>\<open>(1 + discount_rate) ** -i\<close> on the Python
  number that was passed, not on an array.)
\<close>

fun py_pow_neg :: "f64 \<Rightarrow> nat \<Rightarrow> py_error + f64" where
  "py_pow_neg (Fin a) i =
     (if a = 0 then Inl ZeroDivisionError
      else if max_float < 1 / \<bar>a\<bar> ^ i then Inl OverflowError
      else Inr (Fin (1 / a ^ i)))"
| "py_pow_neg NaN i = Inr NaN"
| "py_pow_neg _ i = Inr (Fin 0)"

fun f64_abs :: "f64 \<Rightarrow> f64" where
  "f64_abs (Fin a) = Fin \<bar>a\<bar>"
| "f64_abs NaN = NaN"
| "f64_abs _ = PInf"

text \<open>\<^verbatim>\<open>x < y\<close> on floats: every comparison with a NaN is false.\<close>

fun f64_less :: "f64 \<Rightarrow> f64 \<Rightarrow> bool" where
  "f64_less (Fin a) (Fin b) = (a < b)"
| "f64_less NaN _ = False"
| "f64_less _ NaN = False"
| "f64_less _ NInf = False"
| "f64_less PInf _ = False"
| "f64_less _ _ = True"

section \<open>NumPy array operations used by the program\<close>

text \<open>A one-dimensional \<^verbatim>\<open>float64\<close> array is a list; \<^verbatim>\<open>a[i] = v\<close> is \<open>a[i := v]\<close>.\<close>

definition np_zeros :: "nat \<Rightarrow> f64 list" where
  "np_zeros n = replicate n (Fin 0)"

definition np_diff :: "f64 list \<Rightarrow> f64 list" where
  "np_diff a = map (\<lambda>i. f64_sub (a ! (i + 1)) (a ! i)) [0..<length a - 1]"

definition np_sum :: "f64 list \<Rightarrow> f64" where
  "np_sum a = foldl f64_add (Fin 0) a"

section \<open>\<^verbatim>\<open>calculate_dcf\<close>\<close>

text \<open>Lines 39 to 41: the revenue loop writes \<^verbatim>\<open>revenues[i]\<close> from \<^verbatim>\<open>revenues[i-1]\<close>.\<close>

definition project_revenues :: "f64 list \<Rightarrow> f64 \<Rightarrow> nat \<Rightarrow> f64 list" where
  "project_revenues revenue_growth_rates initial_revenue years =
     fold (\<lambda>i revenues. revenues[i := f64_mul (revenues ! (i - 1))
             (f64_add (Fin 1)
                (revenue_growth_rates ! min i (length revenue_growth_rates - 1)))])
       [1..<years]
       ((np_zeros years)[0 := f64_mul initial_revenue
             (f64_add (Fin 1) (revenue_growth_rates ! 0))])"

text \<open>Lines 44 and 45.\<close>

definition project_ebit :: "f64 list \<Rightarrow> f64 list \<Rightarrow> nat \<Rightarrow> f64 list" where
  "project_ebit revenues ebit_margins years =
     fold (\<lambda>i ebit. ebit[i := f64_mul (revenues ! i)
             (ebit_margins ! min i (length ebit_margins - 1))])
       [0..<years] (np_zeros years)"

text \<open>Lines 51 to 53: the level series of net working capital, \<^verbatim>\<open>years + 1\<close> points.\<close>

definition project_nwc :: "f64 list \<Rightarrow> f64 \<Rightarrow> f64 \<Rightarrow> nat \<Rightarrow> f64 list" where
  "project_nwc revenues initial_revenue nwc_percent years =
     fold (\<lambda>i nwc. nwc[i + 1 := f64_mul (revenues ! i) nwc_percent])
       [0..<years]
       ((np_zeros (years + 1))[0 := f64_mul initial_revenue nwc_percent])"

record projection =
  p_revenues :: "f64 list"
  p_ebit :: "f64 list"
  p_nopat :: "f64 list"
  p_nwc_changes :: "f64 list"
  p_capex :: "f64 list"
  p_fcf :: "f64 list"

text \<open>
  Lines 30 to 60 of \<^verbatim>\<open>calculate_dcf\<close>, the projection of the cash flows. The failures are
  those of Python, in the order the statements meet them:
  \<^verbatim>\<open>np.zeros(years)\<close> rejects a float (\<^verbatim>\<open>TypeError\<close>) and a negative length
  (\<^verbatim>\<open>ValueError\<close>); \<^verbatim>\<open>revenue_growth_rates[0]\<close> on an empty list,
  \<^verbatim>\<open>revenues[0] = ...\<close> on an array of length 0 and \<^verbatim>\<open>ebit_margins[-1]\<close> on an
  empty list raise \<^verbatim>\<open>IndexError\<close>.
\<close>

definition dcf_projection ::
  "f64 list \<Rightarrow> f64 list \<Rightarrow> f64 \<Rightarrow> f64 \<Rightarrow> f64 \<Rightarrow> f64 \<Rightarrow> pynum \<Rightarrow> py_error + projection" where
  "dcf_projection revenue_growth_rates ebit_margins tax_rate nwc_percent capex_percent
       initial_revenue years =
     (case years of
        PFloat _ \<Rightarrow> Inl TypeError
      | PInt y \<Rightarrow>
          if y < 0 then Inl ValueError
          else if revenue_growth_rates = [] then Inl IndexError
          else if y = 0 then Inl IndexError
          else if ebit_margins = [] then Inl IndexError
          else
            let n = nat y;
                revenues = project_revenues revenue_growth_rates initial_revenue n;
                ebit = project_ebit revenues ebit_margins n;
                nopat = map (\<lambda>e. f64_mul e (f64_sub (Fin 1) tax_rate)) ebit;
                nwc = project_nwc revenues initial_revenue nwc_percent n;
                nwc_changes = np_diff nwc;
                capex = map (\<lambda>r. f64_mul r capex_percent) revenues;
                fcf = map2 f64_sub (map2 f64_sub nopat nwc_changes) capex
            in Inr \<lparr>p_revenues = revenues, p_ebit = ebit, p_nopat = nopat,
                     p_nwc_changes = nwc_changes, p_capex = capex, p_fcf = fcf\<rparr>)"

text \<open>Line 67: the list comprehension stops at the first power that raises.\<close>

fun discount_factors_from :: "f64 \<Rightarrow> nat \<Rightarrow> nat \<Rightarrow> py_error + f64 list" where
  "discount_factors_from b i 0 = Inr []"
| "discount_factors_from b i (Suc k) =
     (case py_pow_neg b i of
        Inl e \<Rightarrow> Inl e
      | Inr d \<Rightarrow> (case discount_factors_from b (Suc i) k of
                    Inl e \<Rightarrow> Inl e
                  | Inr ds \<Rightarrow> Inr (d # ds)))"

definition discount_factors :: "f64 \<Rightarrow> nat \<Rightarrow> py_error + f64 list" where
  "discount_factors discount_rate years =
     discount_factors_from (f64_add (Fin 1) discount_rate) 1 years"

text \<open>None of the powers \<^verbatim>\<open>(1 + discount_rate) ** -i\<close>, \<^verbatim>\<open>i = 1 .. years\<close>, raises.\<close>

definition discount_powers_return :: "f64 \<Rightarrow> nat \<Rightarrow> bool" where
  "discount_powers_return discount_rate years \<longleftrightarrow>
     list_all (\<lambda>i. \<not> isl (py_pow_neg (f64_add (Fin 1) discount_rate) i)) [1..<years + 1]"

record summary =
  Revenue :: "f64 list"
  EBIT :: "f64 list"
  NOPAT :: "f64 list"
  NWC_Change :: "f64 list"
  CAPEX :: "f64 list"
  FCF :: "f64 list"
  PV_of_FCF :: "f64 list"

record dcf_result =
  enterprise_value :: f64
  terminal_value :: f64
  summary :: summary

text \<open>Lines 62 to 89, on the projected arrays.\<close>

definition terminal_value_of :: "f64 list \<Rightarrow> f64 \<Rightarrow> f64 \<Rightarrow> f64" where
  "terminal_value_of fcf discount_rate terminal_growth_rate =
     (let terminal_fcf = f64_mul (last fcf) (f64_add (Fin 1) terminal_growth_rate)
      in np_divide terminal_fcf (f64_sub discount_rate terminal_growth_rate))"

definition dcf_valuation :: "projection \<Rightarrow> f64 \<Rightarrow> f64 \<Rightarrow> nat \<Rightarrow> py_error + dcf_result" where
  "dcf_valuation p discount_rate terminal_growth_rate years =
     (let fcf = p_fcf p;
          terminal_value = terminal_value_of fcf discount_rate terminal_growth_rate
      in case discount_factors discount_rate years of
           Inl e \<Rightarrow> Inl e
         | Inr dfs \<Rightarrow>
             let pv_fcf = map2 f64_mul fcf dfs;
                 pv_terminal_value = f64_mul terminal_value (last dfs);
                 enterprise_value = f64_add (np_sum pv_fcf) pv_terminal_value
             in Inr \<lparr>enterprise_value = enterprise_value,
                     terminal_value = terminal_value,
                     summary = \<lparr>Revenue = p_revenues p, EBIT = p_ebit p, NOPAT = p_nopat p,
                       NWC_Change = p_nwc_changes p, CAPEX = p_capex p, FCF = fcf,
                       PV_of_FCF = pv_fcf\<rparr>\<rparr>)"

definition calculate_dcf ::
  "f64 list \<Rightarrow> f64 list \<Rightarrow> f64 \<Rightarrow> f64 \<Rightarrow> f64 \<Rightarrow> f64 \<Rightarrow> f64 \<Rightarrow> f64 \<Rightarrow> pynum
     \<Rightarrow> py_error + dcf_result" where
  "calculate_dcf revenue_growth_rates ebit_margins tax_rate nwc_percent capex_percent
       discount_rate terminal_growth_rate initial_revenue years =
     (case dcf_projection revenue_growth_rates ebit_margins tax_rate nwc_percent capex_percent
             initial_revenue years of
        Inl e \<Rightarrow> Inl e
      | Inr p \<Rightarrow>
          (case years of
             PInt y \<Rightarrow> dcf_valuation p discount_rate terminal_growth_rate (nat y)
           | PFloat _ \<Rightarrow> Inl TypeError))"


text \<open>
  The two helper notions of the specification that the statements about the projection
  use: the clamped index \<^verbatim>\<open>clamp(i) = min(i, len - 1)\<close> and the level series of net
  working capital, \<^verbatim>\<open>level[0] = initial_revenue * nwc_percent\<close>,
  \<^verbatim>\<open>level[i+1] = revenue[i] * nwc_percent\<close>.
\<close>

definition spec_clamp :: "nat \<Rightarrow> 'a list \<Rightarrow> nat" where
  "spec_clamp i xs = min i (length xs - 1)"

fun spec_nwc_level :: "f64 \<Rightarrow> f64 \<Rightarrow> f64 list \<Rightarrow> nat \<Rightarrow> f64" where
  "spec_nwc_level initial_revenue nwc_percent revenue 0 = f64_mul initial_revenue nwc_percent"
| "spec_nwc_level initial_revenue nwc_percent revenue (Suc i) =
     f64_mul (revenue ! i) nwc_percent"

section \<open>Dictionaries of keyword arguments\<close>

text \<open>
  \<^verbatim>\<open>base_inputs\<close> is a dictionary that is unpacked into the keyword arguments of
  \<^verbatim>\<open>calculate_dcf\<close> or \<^verbatim>\<open>reverse_dcf\<close>. It is modelled as a record with one field
  for each parameter, holding a value of the parameter's shape: a list of floats for the
  two sequences, a float for a rate or an amount (a Python \<^verbatim>\<open>int\<close> there is the float of
  the same value), \<^verbatim>\<open>None\<close> for an optional key that is absent. The search range is a
  tuple of three finite numbers. The numbers of a dictionary and the perturbations
  \<^verbatim>\<open>pct_change\<close> are Python floats, as in the dictionaries of the program itself.
\<close>

record assumptions =
  ebit_margins :: "f64 list"
  tax_rate :: f64
  nwc_percent :: f64
  capex_percent :: f64
  discount_rate :: f64
  terminal_growth_rate :: f64
  initial_revenue :: f64
  years :: "pynum option"

record dcf_inputs = assumptions +
  revenue_growth_rates :: "f64 list"

record reverse_inputs = assumptions +
  current_price :: f64
  shares_outstanding :: f64
  net_debt :: f64
  iteration_range :: "(real \<times> real \<times> real) option"

text \<open>A value stored under a key.\<close>

datatype pyval = PNum pynum | PList "f64 list" | PTuple "real \<times> real \<times> real"

datatype key =
    K_revenue_growth_rates | K_ebit_margins | K_tax_rate | K_nwc_percent | K_capex_percent
  | K_discount_rate | K_terminal_growth_rate | K_initial_revenue | K_years
  | K_current_price | K_shares_outstanding | K_net_debt | K_iteration_range

definition key_of :: "string \<Rightarrow> key option" where
  "key_of var =
     (if var = ''revenue_growth_rates'' then Some K_revenue_growth_rates
      else if var = ''ebit_margins'' then Some K_ebit_margins
      else if var = ''tax_rate'' then Some K_tax_rate
      else if var = ''nwc_percent'' then Some K_nwc_percent
      else if var = ''capex_percent'' then Some K_capex_percent
      else if var = ''discount_rate'' then Some K_discount_rate
      else if var = ''terminal_growth_rate'' then Some K_terminal_growth_rate
      else if var = ''initial_revenue'' then Some K_initial_revenue
      else if var = ''years'' then Some K_years
      else if var = ''current_price'' then Some K_current_price
      else if var = ''shares_outstanding'' then Some K_shares_outstanding
      else if var = ''net_debt'' then Some K_net_debt
      else if var = ''iteration_range'' then Some K_iteration_range
      else None)"

text \<open>The keys that both dictionaries have, read from the common part of the record.\<close>

fun assumptions_get :: "'a assumptions_scheme \<Rightarrow> key \<Rightarrow> py_error + pyval" where
  "assumptions_get d K_ebit_margins = Inr (PList (ebit_margins d))"
| "assumptions_get d K_tax_rate = Inr (PNum (PFloat (tax_rate d)))"
| "assumptions_get d K_nwc_percent = Inr (PNum (PFloat (nwc_percent d)))"
| "assumptions_get d K_capex_percent = Inr (PNum (PFloat (capex_percent d)))"
| "assumptions_get d K_discount_rate = Inr (PNum (PFloat (discount_rate d)))"
| "assumptions_get d K_terminal_growth_rate = Inr (PNum (PFloat (terminal_growth_rate d)))"
| "assumptions_get d K_initial_revenue = Inr (PNum (PFloat (initial_revenue d)))"
| "assumptions_get d K_years = (case years d of None \<Rightarrow> Inl KeyError | Some y \<Rightarrow> Inr (PNum y))"
| "assumptions_get d _ = Inl KeyError"

fun as_float :: "pynum \<Rightarrow> f64" where
  "as_float (PInt n) = Fin (of_int n)"
| "as_float (PFloat x) = x"

text \<open>
  \<^verbatim>\<open>d[var] = v\<close> on a copy. A value of another shape than the field's (a list under the
  key of a rate, a number under the key of a sequence) is not a value of the record;
  the model answers \<^verbatim>\<open>TypeError\<close> there and neither runner reaches that case, since a
  scaled value has the shape of the value it was computed from.
\<close>

fun assumptions_set :: "key \<Rightarrow> pyval \<Rightarrow> 'a assumptions_scheme \<Rightarrow> py_error + 'a assumptions_scheme"
  where
  "assumptions_set K_ebit_margins (PList xs) d = Inr (d\<lparr>ebit_margins := xs\<rparr>)"
| "assumptions_set K_tax_rate (PNum x) d = Inr (d\<lparr>tax_rate := as_float x\<rparr>)"
| "assumptions_set K_nwc_percent (PNum x) d = Inr (d\<lparr>nwc_percent := as_float x\<rparr>)"
| "assumptions_set K_capex_percent (PNum x) d = Inr (d\<lparr>capex_percent := as_float x\<rparr>)"
| "assumptions_set K_discount_rate (PNum x) d = Inr (d\<lparr>discount_rate := as_float x\<rparr>)"
| "assumptions_set K_terminal_growth_rate (PNum x) d =
     Inr (d\<lparr>terminal_growth_rate := as_float x\<rparr>)"
| "assumptions_set K_initial_revenue (PNum x) d = Inr (d\<lparr>initial_revenue := as_float x\<rparr>)"
| "assumptions_set K_years (PNum y) d = Inr (d\<lparr>years := Some y\<rparr>)"
| "assumptions_set _ _ d = Inl TypeError"

definition dcf_get :: "dcf_inputs \<Rightarrow> string \<Rightarrow> py_error + pyval" where
  "dcf_get d var =
     (case key_of var of
        None \<Rightarrow> Inl KeyError
      | Some K_revenue_growth_rates \<Rightarrow> Inr (PList (revenue_growth_rates d))
      | Some k \<Rightarrow> assumptions_get d k)"

definition dcf_set :: "string \<Rightarrow> pyval \<Rightarrow> dcf_inputs \<Rightarrow> py_error + dcf_inputs" where
  "dcf_set var v d =
     (case key_of var of
        None \<Rightarrow> Inl TypeError
      | Some K_revenue_growth_rates \<Rightarrow>
          (case v of PList xs \<Rightarrow> Inr (d\<lparr>revenue_growth_rates := xs\<rparr>)
                   | _ \<Rightarrow> Inl TypeError)
      | Some k \<Rightarrow> assumptions_set k v d)"

definition reverse_get :: "reverse_inputs \<Rightarrow> string \<Rightarrow> py_error + pyval" where
  "reverse_get d var =
     (case key_of var of
        None \<Rightarrow> Inl KeyError
      | Some K_revenue_growth_rates \<Rightarrow> Inl KeyError
      | Some K_current_price \<Rightarrow> Inr (PNum (PFloat (current_price d)))
      | Some K_shares_outstanding \<Rightarrow> Inr (PNum (PFloat (shares_outstanding d)))
      | Some K_net_debt \<Rightarrow> Inr (PNum (PFloat (net_debt d)))
      | Some K_iteration_range \<Rightarrow>
          (case iteration_range d of None \<Rightarrow> Inl KeyError | Some t \<Rightarrow> Inr (PTuple t))
      | Some k \<Rightarrow> assumptions_get d k)"

definition reverse_set :: "string \<Rightarrow> pyval \<Rightarrow> reverse_inputs \<Rightarrow> py_error + reverse_inputs"
  where
  "reverse_set var v d =
     (case key_of var of
        None \<Rightarrow> Inl TypeError
      | Some K_revenue_growth_rates \<Rightarrow> Inl TypeError
      | Some K_current_price \<Rightarrow>
          (case v of PNum x \<Rightarrow> Inr (d\<lparr>current_price := as_float x\<rparr>) | _ \<Rightarrow> Inl TypeError)
      | Some K_shares_outstanding \<Rightarrow>
          (case v of PNum x \<Rightarrow> Inr (d\<lparr>shares_outstanding := as_float x\<rparr>)
                   | _ \<Rightarrow> Inl TypeError)
      | Some K_net_debt \<Rightarrow>
          (case v of PNum x \<Rightarrow> Inr (d\<lparr>net_debt := as_float x\<rparr>) | _ \<Rightarrow> Inl TypeError)
      | Some K_iteration_range \<Rightarrow>
          (case v of PTuple t \<Rightarrow> Inr (d\<lparr>iteration_range := Some t\<rparr>)
                   | _ \<Rightarrow> Inl TypeError)
      | Some k \<Rightarrow> assumptions_set k v d)"

text \<open>
  \<^verbatim>\<open>base_var_value * (1 + pct_change)\<close> with a float on the right: a number is scaled,
  a list or a tuple raises \<^verbatim>\<open>TypeError\<close> (a sequence can only be multiplied by an
  \<^verbatim>\<open>int\<close>).
\<close>

fun py_mul_float :: "pyval \<Rightarrow> f64 \<Rightarrow> py_error + pyval" where
  "py_mul_float (PNum x) f = Inr (PNum (PFloat (f64_mul (as_float x) f)))"
| "py_mul_float (PList _) f = Inl TypeError"
| "py_mul_float (PTuple _) f = Inl TypeError"

text \<open>\<^verbatim>\<open>calculate_dcf(**inputs)\<close>; \<^verbatim>\<open>years\<close> defaults to 5.\<close>

definition call_calculate_dcf :: "dcf_inputs \<Rightarrow> py_error + dcf_result" where
  "call_calculate_dcf d =
     calculate_dcf (revenue_growth_rates d) (ebit_margins d) (tax_rate d) (nwc_percent d)
       (capex_percent d) (discount_rate d) (terminal_growth_rate d) (initial_revenue d)
       (case years d of None \<Rightarrow> PInt 5 | Some y \<Rightarrow> y)"


section \<open>\<^verbatim>\<open>sensitivity_analysis\<close>\<close>

text \<open>
  One row of a result table. The program stores \<^verbatim>\<open>change_in_input\<close> and
  \<^verbatim>\<open>value_change\<close> as strings (\<^verbatim>\<open>f"{x:+.1%}"\<close>); the model keeps the numbers that
  are formatted.
\<close>

record sens_row =
  change_in_input :: f64
  row_enterprise_value :: f64
  value_change :: f64

text \<open>Lines 124 to 129: the scaled value, elementwise for a list.\<close>

definition modified_value :: "pyval \<Rightarrow> f64 \<Rightarrow> py_error + pyval" where
  "modified_value base_var_value pct_change =
     (case base_var_value of
        PList xs \<Rightarrow> Inr (PList (map (\<lambda>x. f64_mul x (f64_add (Fin 1) pct_change)) xs))
      | _ \<Rightarrow> py_mul_float base_var_value (f64_add (Fin 1) pct_change))"

text \<open>Lines 124 to 133: the dictionary that is passed to \<^verbatim>\<open>calculate_dcf\<close>.\<close>

definition modified_inputs :: "dcf_inputs \<Rightarrow> string \<Rightarrow> f64 \<Rightarrow> py_error + dcf_inputs" where
  "modified_inputs base_inputs var pct_change =
     (case dcf_get base_inputs var of
        Inl e \<Rightarrow> Inl e
      | Inr base_var_value \<Rightarrow>
          (case modified_value base_var_value pct_change of
             Inl e \<Rightarrow> Inl e
           | Inr v \<Rightarrow> dcf_set var v base_inputs))"

text \<open>Lines 124 to 143, the body of the inner loop.\<close>

definition sensitivity_row :: "dcf_inputs \<Rightarrow> f64 \<Rightarrow> string \<Rightarrow> f64 \<Rightarrow> py_error + sens_row" where
  "sensitivity_row base_inputs base_value var pct_change =
     (case modified_inputs base_inputs var pct_change of
        Inl e \<Rightarrow> Inl e
      | Inr m \<Rightarrow>
          (case call_calculate_dcf m of
             Inl e \<Rightarrow> Inl e
           | Inr r \<Rightarrow>
               let new_value = enterprise_value r;
                   pct_change_in_value = np_divide (f64_sub new_value base_value) base_value
               in Inr \<lparr>change_in_input = pct_change, row_enterprise_value = new_value,
                       value_change = pct_change_in_value\<rparr>))"

fun sensitivity_rows ::
  "dcf_inputs \<Rightarrow> f64 \<Rightarrow> string \<Rightarrow> f64 list \<Rightarrow> py_error + sens_row list" where
  "sensitivity_rows base_inputs base_value var [] = Inr []"
| "sensitivity_rows base_inputs base_value var (pct_change # rest) =
     (case sensitivity_row base_inputs base_value var pct_change of
        Inl e \<Rightarrow> Inl e
      | Inr row \<Rightarrow>
          (case sensitivity_rows base_inputs base_value var rest of
             Inl e \<Rightarrow> Inl e
           | Inr rows \<Rightarrow> Inr (row # rows)))"

text \<open>
  Lines 119 to 145, the loop over the variables: \<^verbatim>\<open>base_inputs[var]\<close> and
  \<^verbatim>\<open>ranges[var]\<close> raise \<^verbatim>\<open>KeyError\<close> for a missing key; \<^verbatim>\<open>results[var] = ...\<close>
  replaces an earlier table of the same variable.
\<close>

fun sensitivity_vars ::
  "dcf_inputs \<Rightarrow> f64 \<Rightarrow> (string \<times> f64 list) list \<Rightarrow> string list
     \<Rightarrow> (string \<times> sens_row list) list \<Rightarrow> py_error + (string \<times> sens_row list) list" where
  "sensitivity_vars base_inputs base_value ranges [] results = Inr results"
| "sensitivity_vars base_inputs base_value ranges (var # vars) results =
     (case dcf_get base_inputs var of
        Inl e \<Rightarrow> Inl e
      | Inr _ \<Rightarrow>
          (case map_of ranges var of
             None \<Rightarrow> Inl KeyError
           | Some pcts \<Rightarrow>
               (case sensitivity_rows base_inputs base_value var pcts of
                  Inl e \<Rightarrow> Inl e
                | Inr rows \<Rightarrow>
                    sensitivity_vars base_inputs base_value ranges vars
                      (AList.update var rows results))))"

definition sensitivity_analysis ::
  "dcf_inputs \<Rightarrow> string list \<Rightarrow> (string \<times> f64 list) list
     \<Rightarrow> py_error + (string \<times> sens_row list) list" where
  "sensitivity_analysis base_inputs variables ranges =
     (case call_calculate_dcf base_inputs of
        Inl e \<Rightarrow> Inl e
      | Inr r \<Rightarrow> sensitivity_vars base_inputs (enterprise_value r) ranges variables [])"

section \<open>\<^verbatim>\<open>reverse_dcf\<close>\<close>

text \<open>
  \<^verbatim>\<open>np.arange(start, stop, step)\<close> on finite Python numbers: the length is
  \<^verbatim>\<open>ceil((stop - start) / step)\<close>, none when that is not positive, and the division
  raises \<^verbatim>\<open>ZeroDivisionError\<close> for a zero step. Length and elements are those of
  exact arithmetic; NumPy rounds both, so the array of the program can differ in its
  last element. The general statements below depend only on whether the array is
  empty; the one array that is evaluated, \<^verbatim>\<open>np.arange(0, 0.2, 0.1)\<close>, is
  \<^verbatim>\<open>[0.0, 0.1]\<close> in NumPy as well.
\<close>

definition np_arange :: "real \<Rightarrow> real \<Rightarrow> real \<Rightarrow> py_error + real list" where
  "np_arange start stop step =
     (if step = 0 then Inl ZeroDivisionError
      else Inr (map (\<lambda>k. start + real k * step) [0..<nat \<lceil>(stop - start) / step\<rceil>]))"

text \<open>
  Lines 210 to 223: the valuation of one candidate. \<^verbatim>\<open>[growth] * years\<close> is the empty
  list for a negative \<^verbatim>\<open>years\<close> and raises \<^verbatim>\<open>TypeError\<close> for a float.
\<close>

definition candidate_dcf :: "reverse_inputs \<Rightarrow> f64 \<Rightarrow> py_error + dcf_result" where
  "candidate_dcf q growth =
     (case (case years q of None \<Rightarrow> PInt 5 | Some y \<Rightarrow> y) of
        PFloat _ \<Rightarrow> Inl TypeError
      | PInt y \<Rightarrow>
          let growth_array = replicate (nat y) growth
          in calculate_dcf growth_array (ebit_margins q) (tax_rate q) (nwc_percent q)
               (capex_percent q) (discount_rate q) (terminal_growth_rate q)
               (initial_revenue q) (PInt y))"

definition target_ev_of :: "reverse_inputs \<Rightarrow> f64" where
  "target_ev_of q =
     (let market_cap = f64_mul (current_price q) (shares_outstanding q)
      in f64_add market_cap (net_debt q))"

text \<open>Lines 210 to 224, the loop body up to the distance of the candidate to the target.\<close>

definition candidate_difference :: "reverse_inputs \<Rightarrow> f64 \<Rightarrow> py_error + f64" where
  "candidate_difference q growth =
     (case candidate_dcf q growth of
        Inl e \<Rightarrow> Inl e
      | Inr r \<Rightarrow>
          let calculated_ev = enterprise_value r;
              difference = f64_abs (f64_sub calculated_ev (target_ev_of q))
          in Inr difference)"

text \<open>
  Lines 206 to 230, the scan with the state \<^verbatim>\<open>closest_growth, min_difference\<close>. The
  first argument is the loop body up to \<^verbatim>\<open>difference\<close>, so that the scan is stated
  for every way of computing the distance of a candidate.
\<close>

fun reverse_loop ::
  "(f64 \<Rightarrow> py_error + f64) \<Rightarrow> f64 list \<Rightarrow> f64 option \<Rightarrow> f64 \<Rightarrow> py_error + f64 option"
  where
  "reverse_loop difference_of [] closest_growth min_difference = Inr closest_growth"
| "reverse_loop difference_of (growth # rest) closest_growth min_difference =
     (case difference_of growth of
        Inl e \<Rightarrow> Inl e
      | Inr difference \<Rightarrow>
          if f64_less difference min_difference
          then reverse_loop difference_of rest (Some growth) difference
          else reverse_loop difference_of rest closest_growth min_difference)"

definition growth_grid :: "reverse_inputs \<Rightarrow> py_error + real list" where
  "growth_grid q =
     (case (case iteration_range q of None \<Rightarrow> (0, 1 / 2, 1 / 1000) | Some t \<Rightarrow> t) of
        (min_growth, max_growth, step) \<Rightarrow> np_arange min_growth max_growth step)"

text \<open>\<^verbatim>\<open>reverse_dcf(**q)\<close>; the result \<^verbatim>\<open>None\<close> of Python is \<open>None\<close>.\<close>

definition reverse_dcf :: "reverse_inputs \<Rightarrow> py_error + f64 option" where
  "reverse_dcf q =
     (case growth_grid q of
        Inl e \<Rightarrow> Inl e
      | Inr growth_rates \<Rightarrow>
          reverse_loop (candidate_difference q) (map Fin growth_rates) None PInf)"

section \<open>\<^verbatim>\<open>reverse_dcf_sensitivity\<close>\<close>

record reverse_row =
  r_change_in_input :: f64
  implied_growth :: f64
  growth_delta :: f64

text \<open>
  Lines 253 to 262, the body of the inner loop. Formatting \<^verbatim>\<open>None\<close> with
  \<^verbatim>\<open>:.1%\<close> and subtracting \<^verbatim>\<open>None\<close> raise \<^verbatim>\<open>TypeError\<close>.
\<close>

definition reverse_row_of ::
  "reverse_inputs \<Rightarrow> f64 option \<Rightarrow> string \<Rightarrow> pyval \<Rightarrow> f64 \<Rightarrow> py_error + reverse_row" where
  "reverse_row_of base_inputs base_growth var base_var_value pct_change =
     (case py_mul_float base_var_value (f64_add (Fin 1) pct_change) of
        Inl e \<Rightarrow> Inl e
      | Inr v \<Rightarrow>
          (case reverse_set var v base_inputs of
             Inl e \<Rightarrow> Inl e
           | Inr modified \<Rightarrow>
               (case reverse_dcf modified of
                  Inl e \<Rightarrow> Inl e
                | Inr None \<Rightarrow> Inl TypeError
                | Inr (Some implied) \<Rightarrow>
                    (case base_growth of
                       None \<Rightarrow> Inl TypeError
                     | Some base \<Rightarrow>
                         Inr \<lparr>r_change_in_input = pct_change, implied_growth = implied,
                              growth_delta = f64_sub implied base\<rparr>))))"

fun reverse_rows ::
  "reverse_inputs \<Rightarrow> f64 option \<Rightarrow> string \<Rightarrow> pyval \<Rightarrow> f64 list \<Rightarrow> py_error + reverse_row list"
  where
  "reverse_rows base_inputs base_growth var base_var_value [] = Inr []"
| "reverse_rows base_inputs base_growth var base_var_value (pct_change # rest) =
     (case reverse_row_of base_inputs base_growth var base_var_value pct_change of
        Inl e \<Rightarrow> Inl e
      | Inr row \<Rightarrow>
          (case reverse_rows base_inputs base_growth var base_var_value rest of
             Inl e \<Rightarrow> Inl e
           | Inr rows \<Rightarrow> Inr (row # rows)))"

fun reverse_vars ::
  "reverse_inputs \<Rightarrow> f64 option \<Rightarrow> (string \<times> f64 list) list \<Rightarrow> string list
     \<Rightarrow> (string \<times> reverse_row list) list \<Rightarrow> py_error + (string \<times> reverse_row list) list"
  where
  "reverse_vars base_inputs base_growth ranges [] results = Inr results"
| "reverse_vars base_inputs base_growth ranges (var # vars) results =
     (case reverse_get base_inputs var of
        Inl e \<Rightarrow> Inl e
      | Inr base_var_value \<Rightarrow>
          (case map_of ranges var of
             None \<Rightarrow> Inl KeyError
           | Some pcts \<Rightarrow>
               (case reverse_rows base_inputs base_growth var base_var_value pcts of
                  Inl e \<Rightarrow> Inl e
                | Inr rows \<Rightarrow>
                    reverse_vars base_inputs base_growth ranges vars
                      (AList.update var rows results))))"

definition reverse_dcf_sensitivity ::
  "reverse_inputs \<Rightarrow> string list \<Rightarrow> (string \<times> f64 list) list
     \<Rightarrow> py_error + (string \<times> reverse_row list) list" where
  "reverse_dcf_sensitivity base_inputs variables ranges =
     (case reverse_dcf base_inputs of
        Inl e \<Rightarrow> Inl e
      | Inr base_growth \<Rightarrow> reverse_vars base_inputs base_growth ranges variables [])"


section \<open>Two small inputs\<close>

text \<open>
  A forecast of one year and a search over the two candidates \<^verbatim>\<open>0.0\<close> and \<^verbatim>\<open>0.1\<close>,
  on which the functions are evaluated below.
\<close>

definition small_inputs :: dcf_inputs where
  "small_inputs =
     \<lparr>ebit_margins = [Fin (1 / 4)], tax_rate = Fin (1 / 5), nwc_percent = Fin (1 / 10),
      capex_percent = Fin (1 / 20), discount_rate = Fin (1 / 10),
      terminal_growth_rate = Fin (1 / 50), initial_revenue = Fin 100, years = Some (PInt 1),
      revenue_growth_rates = [Fin (1 / 10)]\<rparr>"

definition small_query :: reverse_inputs where
  "small_query =
     \<lparr>ebit_margins = [Fin (1 / 4)], tax_rate = Fin (1 / 5), nwc_percent = Fin (1 / 10),
      capex_percent = Fin (1 / 20), discount_rate = Fin (1 / 10),
      terminal_growth_rate = Fin (1 / 50), initial_revenue = Fin 100, years = Some (PInt 1),
      current_price = Fin 10, shares_outstanding = Fin 20, net_debt = Fin 50,
      iteration_range = Some (0, 1 / 5, 1 / 10)\<rparr>"

section \<open>Loops that fill an array\<close>


lemma loop_length:
  "length (fold (\<lambda>i a. a[h i := G i a]) is s) = length s"
  by (induction "is" arbitrary: s) simp_all

lemma loop_stable:
  "j < k \<Longrightarrow> k \<le> n \<Longrightarrow>
     fold (\<lambda>i a. a[i := G i a]) [lo..<n] s ! j = fold (\<lambda>i a. a[i := G i a]) [lo..<k] s ! j"
proof (induction n)
  case 0
  then show ?case by simp
next
  case (Suc n)
  show ?case
  proof (cases "k = Suc n")
    case True
    then show ?thesis by simp
  next
    case False
    with Suc.prems have kn: "k \<le> n" by simp
    show ?thesis
    proof (cases "lo \<le> n")
      case True
      with Suc.prems kn have "j \<noteq> n" by simp
      with True Suc.IH [OF Suc.prems(1) kn] show ?thesis by simp
    next
      case False
      with kn show ?thesis by simp
    qed
  qed
qed

lemma loop_written:
  assumes "lo \<le> j" "j < n" "j < length s"
  shows "fold (\<lambda>i a. a[i := G i a]) [lo..<n] s ! j
           = G j (fold (\<lambda>i a. a[i := G i a]) [lo..<j] s)"
proof -
  have "fold (\<lambda>i a. a[i := G i a]) [lo..<n] s ! j
          = fold (\<lambda>i a. a[i := G i a]) [lo..<Suc j] s ! j"
    using assms by (intro loop_stable) simp_all
  also have "\<dots> = G j (fold (\<lambda>i a. a[i := G i a]) [lo..<j] s)"
    using assms loop_length [of "\<lambda>i. i" G "[lo..<j]" s] by simp
  finally show ?thesis .
qed

lemma loop_untouched:
  "j < lo \<Longrightarrow> fold (\<lambda>i a. a[i := G i a]) [lo..<n] s ! j = s ! j"
  by (induction n) simp_all

lemma loop_shifted:
  "j < length s \<Longrightarrow> fold (\<lambda>i a. a[Suc i := v i]) [0..<k] s ! j
     = (if 1 \<le> j \<and> j \<le> k then v (j - 1) else s ! j)"
proof (induction k)
  case 0
  then show ?case by auto
next
  case (Suc k)
  show ?case
  proof (cases "j = Suc k")
    case True
    then show ?thesis using Suc.prems loop_length [of Suc "\<lambda>i a. v i" "[0..<k]" s]
      by simp
  next
    case False
    then show ?thesis using Suc.IH [OF Suc.prems] by auto
  qed
qed


lemma project_revenues_length: "length (project_revenues g r n) = n"
  by (simp add: project_revenues_def loop_length np_zeros_def)

lemma project_revenues_0:
  "0 < n \<Longrightarrow> project_revenues g r n ! 0 = f64_mul r (f64_add (Fin 1) (g ! 0))"
  by (simp add: project_revenues_def loop_untouched np_zeros_def)

lemma project_revenues_step:
  assumes "0 < i" "i < n"
  shows "project_revenues g r n ! i
           = f64_mul (project_revenues g r n ! (i - 1))
               (f64_add (Fin 1) (g ! min i (length g - 1)))"
proof -
  let ?G = "\<lambda>i (a::f64 list). f64_mul (a ! (i - 1)) (f64_add (Fin 1) (g ! min i (length g - 1)))"
  let ?s = "(np_zeros n)[0 := f64_mul r (f64_add (Fin 1) (g ! 0))]"
  let ?L = "\<lambda>k. fold (\<lambda>i a. a[i := ?G i a]) [1..<k] ?s"
  have len: "i < length ?s" using assms by (simp add: np_zeros_def)
  have "?L n ! i = ?G i (?L i)"
    using assms len by (intro loop_written) simp_all
  moreover have "?L n ! (i - 1) = ?L i ! (i - 1)"
    using assms by (intro loop_stable) simp_all
  ultimately show ?thesis by (simp add: project_revenues_def)
qed

lemma project_ebit_length: "length (project_ebit revs m n) = n"
  by (simp add: project_ebit_def loop_length np_zeros_def)

lemma project_ebit_nth:
  "i < n \<Longrightarrow> project_ebit revs m n ! i = f64_mul (revs ! i) (m ! min i (length m - 1))"
  unfolding project_ebit_def
  by (subst loop_written) (simp_all add: np_zeros_def)

lemma project_nwc_length: "length (project_nwc revs r w n) = n + 1"
  unfolding project_nwc_def
  using loop_length [of "\<lambda>i. i + 1" "\<lambda>i a. f64_mul (revs ! i) w" "[0..<n]"]
  by (simp add: np_zeros_def)

lemma project_nwc_nth:
  "i \<le> n \<Longrightarrow> project_nwc revs r w n ! i = spec_nwc_level r w revs i"
  unfolding project_nwc_def
  by (cases i) (simp_all add: loop_shifted np_zeros_def)

lemma np_diff_length: "length (np_diff a) = length a - 1"
  by (simp add: np_diff_def)

lemma np_diff_nth: "i < length a - 1 \<Longrightarrow> np_diff a ! i = f64_sub (a ! (i + 1)) (a ! i)"
  by (simp add: np_diff_def)

section \<open>The powers of line 67\<close>

lemma max_float_ge_one: "1 \<le> max_float"
proof -
  have "(1::real) \<le> 2 ^ 53 - 1" by simp
  moreover have "(1::real) \<le> 2 ^ 971" by (rule one_le_power) simp
  ultimately have "(1::real) * 1 \<le> (2 ^ 53 - 1) * 2 ^ 971"
    by (intro mult_mono) simp_all
  then show ?thesis by (simp add: max_float_def)
qed

lemma max_float_less_2_1024: "max_float < 2 ^ 1024"
proof -
  have "max_float < 2 ^ 53 * 2 ^ 971"
    unfolding max_float_def by (intro mult_strict_right_mono) simp_all
  also have "\<dots> = 2 ^ 1024" by (simp add: power_add [symmetric])
  finally show ?thesis .
qed

lemma not_max_float_less: "x \<le> 1 \<Longrightarrow> (max_float < x) = False"
  using max_float_ge_one by simp

lemma py_pow_neg_ge_one: "1 \<le> \<bar>a\<bar> \<Longrightarrow> py_pow_neg (Fin a) i = Inr (Fin (1 / a ^ i))"
proof -
  assume a: "1 \<le> \<bar>a\<bar>"
  define x where "x = \<bar>a\<bar> ^ i"
  from a have "1 \<le> x" unfolding x_def by (rule one_le_power)
  then have "1 / x \<le> 1" by simp
  then have "\<not> max_float < 1 / x" using max_float_ge_one by simp
  moreover from a have "a \<noteq> 0" by auto
  ultimately show ?thesis by (simp add: x_def)
qed

lemma py_pow_neg_overflow_example: "py_pow_neg (Fin (1 / 2 ^ 52)) 20 = Inl OverflowError"
proof -
  have "1 / \<bar>1 / 2 ^ 52 :: real\<bar> ^ 20 = 2 ^ 1040"
    by (simp add: power_divide power_mult [symmetric])
  moreover have "(2::real) ^ 1024 \<le> 2 ^ 1040" by (rule power_increasing) simp_all
  ultimately have "max_float < 1 / \<bar>1 / 2 ^ 52 :: real\<bar> ^ 20"
    using max_float_less_2_1024 by simp
  then show ?thesis by simp
qed

lemma py_pow_neg_Inr: "\<not> isl (py_pow_neg b i) \<Longrightarrow> \<exists>v. py_pow_neg b i = Inr v"
  by (cases "py_pow_neg b i") simp_all

lemma py_pow_neg_Fin_value: "py_pow_neg (Fin a) i = Inr v \<Longrightarrow> v = Fin (1 / a ^ i)"
  by (auto split: if_splits)

lemma py_pow_neg_no_zero_division: "b \<noteq> Fin 0 \<Longrightarrow> py_pow_neg b i \<noteq> Inl ZeroDivisionError"
  by (cases b) simp_all

lemma discount_factors_from_ok:
  "list_all (\<lambda>j. \<not> isl (py_pow_neg b j)) [i..<i + k] \<Longrightarrow>
     discount_factors_from b i k = Inr (map (\<lambda>j. projr (py_pow_neg b j)) [i..<i + k])"
proof (induction k arbitrary: i)
  case 0
  then show ?case by simp
next
  case (Suc k)
  have split: "[i..<i + Suc k] = i # [Suc i..<Suc i + k]"
    by (simp add: upt_conv_Cons del: upt_Suc)
  from Suc.prems have here: "\<not> isl (py_pow_neg b i)"
    and rest: "list_all (\<lambda>j. \<not> isl (py_pow_neg b j)) [Suc i..<Suc i + k]"
    unfolding split by simp_all
  from py_pow_neg_Inr [OF here] obtain d where "py_pow_neg b i = Inr d" by blast
  with Suc.IH [OF rest] split show ?case by (simp del: upt_Suc)
qed

lemma discount_factors_from_no_zero_division:
  "b \<noteq> Fin 0 \<Longrightarrow> discount_factors_from b i k \<noteq> Inl ZeroDivisionError"
proof (induction k arbitrary: i)
  case 0
  then show ?case by simp
next
  case (Suc k)
  from Suc.IH [OF Suc.prems, of "Suc i"] py_pow_neg_no_zero_division [OF Suc.prems, of i]
  show ?case by (auto split: sum.splits)
qed

lemma discount_factors_return:
  assumes "discount_powers_return d n"
  shows "discount_factors d n
           = Inr (map (\<lambda>j. projr (py_pow_neg (f64_add (Fin 1) d) j)) [1..<1 + n])"
  unfolding discount_factors_def
  using assms by (intro discount_factors_from_ok) (simp add: discount_powers_return_def)

lemma discount_powers_return_ge_one:
  "1 \<le> \<bar>1 + d\<bar> \<Longrightarrow> discount_powers_return (Fin d) n"
  by (simp add: discount_powers_return_def list_all_iff py_pow_neg_ge_one del: py_pow_neg.simps)

lemma discount_powers_return_zero:
  "0 < n \<Longrightarrow> \<not> discount_powers_return (Fin (- 1)) n"
  by (auto simp: discount_powers_return_def list_all_iff intro!: bexI [of _ 1])

lemma discount_powers_return_nth:
  "discount_powers_return d n \<Longrightarrow> 1 \<le> i \<Longrightarrow> i \<le> n
     \<Longrightarrow> \<not> isl (py_pow_neg (f64_add (Fin 1) d) i)"
  unfolding discount_powers_return_def list_all_iff by (auto simp del: upt_Suc)

lemma py_pow_neg_zero: "py_pow_neg (Fin 0) i = Inl ZeroDivisionError"
  by simp

text \<open>From here on a power is evaluated by the two lemmas for a zero base and a base
  of magnitude at least 1.\<close>

declare py_pow_neg.simps(1) [simp del]
declare py_pow_neg_zero [simp]
declare py_pow_neg_ge_one [simp]

section \<open>The claims about \<^verbatim>\<open>calculate_dcf\<close>\<close>

text \<open>The projection of lines 30 to 60 and the reference equations of its arrays.\<close>

lemma dcf_projection_equations:
  assumes "1 \<le> y" "growth \<noteq> []" "margins \<noteq> []"
  shows "\<exists>p. dcf_projection growth margins tax nwc_pct
                 capex_pct init_rev (PInt y) = Inr p
           \<and> length (p_revenues p) = nat y \<and> length (p_ebit p) = nat y
           \<and> length (p_nopat p) = nat y \<and> length (p_nwc_changes p) = nat y
           \<and> length (p_capex p) = nat y \<and> length (p_fcf p) = nat y
           \<and> p_revenues p ! 0 = f64_mul init_rev
                 (f64_add (Fin 1) (growth ! spec_clamp 0 growth))
           \<and> (\<forall>i. 0 < i \<and> i < nat y \<longrightarrow>
                 p_revenues p ! i = f64_mul (p_revenues p ! (i - 1))
                   (f64_add (Fin 1) (growth ! spec_clamp i growth)))
           \<and> (\<forall>i. i < nat y \<longrightarrow>
                 p_ebit p ! i = f64_mul (p_revenues p ! i)
                                  (margins ! spec_clamp i margins)
               \<and> p_nopat p ! i = f64_mul (p_ebit p ! i) (f64_sub (Fin 1) tax)
               \<and> p_nwc_changes p ! i =
                   f64_sub (spec_nwc_level init_rev nwc_pct (p_revenues p) (i + 1))
                           (spec_nwc_level init_rev nwc_pct (p_revenues p) i)
               \<and> p_capex p ! i = f64_mul (p_revenues p ! i) capex_pct
               \<and> p_fcf p ! i =
                   f64_sub (f64_sub (p_nopat p ! i) (p_nwc_changes p ! i)) (p_capex p ! i))"
proof -
  define n where "n = nat y"
  define revenues where "revenues = project_revenues growth init_rev n"
  define ebit where "ebit = project_ebit revenues margins n"
  define nopat where "nopat = map (\<lambda>e. f64_mul e (f64_sub (Fin 1) tax)) ebit"
  define nwc where "nwc = project_nwc revenues init_rev nwc_pct n"
  define nwc_changes where "nwc_changes = np_diff nwc"
  define capex where "capex = map (\<lambda>r. f64_mul r capex_pct) revenues"
  define fcf where "fcf = map2 f64_sub (map2 f64_sub nopat nwc_changes) capex"
  define p where "p = \<lparr>p_revenues = revenues, p_ebit = ebit, p_nopat = nopat,
                     p_nwc_changes = nwc_changes, p_capex = capex, p_fcf = fcf\<rparr>"
  have n: "0 < n" using assms(1) by (simp add: n_def)
  have run: "dcf_projection growth margins tax nwc_pct
               capex_pct init_rev (PInt y) = Inr p"
    using assms
    by (simp add: dcf_projection_def Let_def p_def fcf_def capex_def nwc_changes_def nwc_def
          nopat_def ebit_def revenues_def n_def)
  have l_rev: "length revenues = n" by (simp add: revenues_def project_revenues_length)
  have l_ebit: "length ebit = n" by (simp add: ebit_def project_ebit_length)
  have l_nopat: "length nopat = n" by (simp add: nopat_def l_ebit)
  have l_nwc: "length nwc_changes = n"
    by (simp add: nwc_changes_def nwc_def np_diff_length project_nwc_length)
  have l_capex: "length capex = n" by (simp add: capex_def l_rev)
  have l_fcf: "length fcf = n" by (simp add: fcf_def l_nopat l_nwc l_capex)
  have rev0: "revenues ! 0 = f64_mul init_rev
                (f64_add (Fin 1) (growth ! spec_clamp 0 growth))"
    using n by (simp add: revenues_def project_revenues_0 spec_clamp_def)
  have revi: "revenues ! i = f64_mul (revenues ! (i - 1))
                (f64_add (Fin 1) (growth ! spec_clamp i growth))"
    if "0 < i" "i < n" for i
    using that by (simp add: revenues_def project_revenues_step spec_clamp_def)
  have ebiti: "ebit ! i = f64_mul (revenues ! i) (margins ! spec_clamp i margins)"
    if "i < n" for i
    using that by (simp add: ebit_def project_ebit_nth spec_clamp_def)
  have nopati: "nopat ! i = f64_mul (ebit ! i) (f64_sub (Fin 1) tax)" if "i < n" for i
    using that by (simp add: nopat_def l_ebit)
  have nwci: "nwc_changes ! i =
                f64_sub (spec_nwc_level init_rev nwc_pct revenues (i + 1))
                        (spec_nwc_level init_rev nwc_pct revenues i)"
    if "i < n" for i
    using that project_nwc_nth [of "i + 1" n revenues init_rev nwc_pct]
      project_nwc_nth [of i n revenues init_rev nwc_pct]
    by (simp add: nwc_changes_def nwc_def np_diff_nth project_nwc_length)
  have capexi: "capex ! i = f64_mul (revenues ! i) capex_pct" if "i < n" for i
    using that by (simp add: capex_def l_rev)
  have fcfi: "fcf ! i = f64_sub (f64_sub (nopat ! i) (nwc_changes ! i)) (capex ! i)"
    if "i < n" for i
    using that by (simp add: fcf_def l_nopat l_nwc l_capex)
  show ?thesis
    apply (rule exI [of _ p])
    using run l_rev l_ebit l_nopat l_nwc l_capex l_fcf rev0 revi ebiti nopati nwci capexi fcfi
    by (simp add: p_def n_def)
qed


lemma dcf_projection_fcf_length:
  "dcf_projection g m t w c r (PInt y) = Inr p \<Longrightarrow> length (p_fcf p) = nat y"
  by (auto simp: dcf_projection_def Let_def project_revenues_length project_ebit_length
        project_nwc_length np_diff_length split: if_splits)

text \<open>The definitions that evaluate \<^verbatim>\<open>calculate_dcf\<close> on a concrete input.\<close>

lemmas dcf_eval_defs = calculate_dcf_def dcf_projection_def dcf_valuation_def
  discount_factors_def Let_def project_revenues_def project_ebit_def project_nwc_def
  np_diff_def np_zeros_def np_sum_def terminal_value_of_def f64_sub_def signed_inf_def

lemma np_divide_zero_not_finite: "\<not> is_finite (np_divide x (Fin 0))"
  by (cases x) simp_all

lemma np_divide_nan_not_finite: "\<not> is_finite (np_divide x NaN)"
  by (cases x) simp_all

lemma f64_sub_self: "f64_sub d d = Fin 0 \<or> f64_sub d d = NaN"
  by (cases d) (simp_all add: f64_sub_def)

text \<open>
  After the projection only the powers of line 67 can raise: when they return, so does
  \<^verbatim>\<open>calculate_dcf\<close>.
\<close>

lemma calculate_dcf_returns:
  assumes "dcf_projection g m t w c r (PInt y) = Inr p" "discount_powers_return d (nat y)"
  shows "\<exists>dfs. discount_factors d (nat y) = Inr dfs \<and> length dfs = nat y
           \<and> calculate_dcf g m t w c d tg r (PInt y) =
               Inr \<lparr>enterprise_value =
                      f64_add (np_sum (map2 f64_mul (p_fcf p) dfs))
                        (f64_mul (terminal_value_of (p_fcf p) d tg) (last dfs)),
                    terminal_value = terminal_value_of (p_fcf p) d tg,
                    summary = \<lparr>Revenue = p_revenues p, EBIT = p_ebit p, NOPAT = p_nopat p,
                       NWC_Change = p_nwc_changes p, CAPEX = p_capex p, FCF = p_fcf p,
                       PV_of_FCF = map2 f64_mul (p_fcf p) dfs\<rparr>\<rparr>"
  using assms(1) discount_factors_return [OF assms(2)]
  by (simp add: calculate_dcf_def dcf_valuation_def Let_def)

text \<open>
  Claim C1, as amended. For \<^verbatim>\<open>years >= 1\<close> and non-empty growth and margin sequences,
  when none of the powers \<^verbatim>\<open>(1 + discount_rate) ** -i\<close> of line 67 raises,
  \<^verbatim>\<open>calculate_dcf\<close> returns a summary whose six projected columns have length
  \<^verbatim>\<open>years\<close> and satisfy the reference equations:
  \<^verbatim>\<open>revenue[0] = initial_revenue * (1 + growth[clamp(0)])\<close>,
  \<^verbatim>\<open>revenue[i] = revenue[i-1] * (1 + growth[clamp(i)])\<close> with the index clamped to the
  last one, \<^verbatim>\<open>ebit[i] = revenue[i] * margin[clamp(i)]\<close>,
  \<^verbatim>\<open>nopat[i] = ebit[i] * (1 - tax_rate)\<close>, \<^verbatim>\<open>nwc_change[i] = level[i+1] - level[i]\<close>,
  \<^verbatim>\<open>capex[i] = revenue[i] * capex_percent\<close> and
  \<^verbatim>\<open>fcf[i] = nopat[i] - nwc_change[i] - capex[i]\<close>. The operations are those of the
  floats.
\<close>

theorem C1_projection_equations:
  assumes "1 \<le> y" "growth \<noteq> []" "margins \<noteq> []"
    and "discount_powers_return disc (nat y)"
  shows "\<exists>r. calculate_dcf growth margins tax nwc_pct capex_pct disc tgrowth init_rev (PInt y)
               = Inr r
           \<and> length (Revenue (summary r)) = nat y \<and> length (EBIT (summary r)) = nat y
           \<and> length (NOPAT (summary r)) = nat y \<and> length (NWC_Change (summary r)) = nat y
           \<and> length (CAPEX (summary r)) = nat y \<and> length (FCF (summary r)) = nat y
           \<and> Revenue (summary r) ! 0 = f64_mul init_rev
                 (f64_add (Fin 1) (growth ! spec_clamp 0 growth))
           \<and> (\<forall>i. 0 < i \<and> i < nat y \<longrightarrow>
                 Revenue (summary r) ! i = f64_mul (Revenue (summary r) ! (i - 1))
                   (f64_add (Fin 1) (growth ! spec_clamp i growth)))
           \<and> (\<forall>i. i < nat y \<longrightarrow>
                 EBIT (summary r) ! i = f64_mul (Revenue (summary r) ! i)
                                          (margins ! spec_clamp i margins)
               \<and> NOPAT (summary r) ! i = f64_mul (EBIT (summary r) ! i) (f64_sub (Fin 1) tax)
               \<and> NWC_Change (summary r) ! i =
                   f64_sub (spec_nwc_level init_rev nwc_pct (Revenue (summary r)) (i + 1))
                           (spec_nwc_level init_rev nwc_pct (Revenue (summary r)) i)
               \<and> CAPEX (summary r) ! i = f64_mul (Revenue (summary r) ! i) capex_pct
               \<and> FCF (summary r) ! i =
                   f64_sub (f64_sub (NOPAT (summary r) ! i) (NWC_Change (summary r) ! i))
                     (CAPEX (summary r) ! i))"
proof -
  from dcf_projection_equations [OF assms(1-3), of tax nwc_pct capex_pct init_rev]
  obtain p where p: "dcf_projection growth margins tax nwc_pct capex_pct init_rev (PInt y) = Inr p"
    and eqs: "length (p_revenues p) = nat y \<and> length (p_ebit p) = nat y
           \<and> length (p_nopat p) = nat y \<and> length (p_nwc_changes p) = nat y
           \<and> length (p_capex p) = nat y \<and> length (p_fcf p) = nat y
           \<and> p_revenues p ! 0 = f64_mul init_rev
                 (f64_add (Fin 1) (growth ! spec_clamp 0 growth))
           \<and> (\<forall>i. 0 < i \<and> i < nat y \<longrightarrow>
                 p_revenues p ! i = f64_mul (p_revenues p ! (i - 1))
                   (f64_add (Fin 1) (growth ! spec_clamp i growth)))
           \<and> (\<forall>i. i < nat y \<longrightarrow>
                 p_ebit p ! i = f64_mul (p_revenues p ! i)
                                  (margins ! spec_clamp i margins)
               \<and> p_nopat p ! i = f64_mul (p_ebit p ! i) (f64_sub (Fin 1) tax)
               \<and> p_nwc_changes p ! i =
                   f64_sub (spec_nwc_level init_rev nwc_pct (p_revenues p) (i + 1))
                           (spec_nwc_level init_rev nwc_pct (p_revenues p) i)
               \<and> p_capex p ! i = f64_mul (p_revenues p ! i) capex_pct
               \<and> p_fcf p ! i =
                   f64_sub (f64_sub (p_nopat p ! i) (p_nwc_changes p ! i)) (p_capex p ! i))"
    by (elim exE conjE) (intro that conjI)
  from calculate_dcf_returns [OF p assms(4), where tg = tgrowth] obtain r
    where r: "calculate_dcf growth margins tax nwc_pct capex_pct disc tgrowth init_rev (PInt y)
                = Inr r"
      and cols: "Revenue (summary r) = p_revenues p" "EBIT (summary r) = p_ebit p"
        "NOPAT (summary r) = p_nopat p" "NWC_Change (summary r) = p_nwc_changes p"
        "CAPEX (summary r) = p_capex p" "FCF (summary r) = p_fcf p"
    by auto
  show ?thesis
    by (rule exI [of _ r]) (simp only: cols, insert r eqs, blast)
qed


theorem C1_projection_equations_witness:
  "(1::int) \<le> 2 \<and> [Fin (1 / 2)] \<noteq> [] \<and> [Fin (1 / 4)] \<noteq> []
   \<and> discount_powers_return (Fin (1 / 10)) (nat 2) \<and>
   (\<exists>r. calculate_dcf [Fin (1 / 2)] [Fin (1 / 4)] (Fin (1 / 5)) (Fin (1 / 10)) (Fin (1 / 20))
          (Fin (1 / 10)) (Fin (1 / 50)) (Fin 100) (PInt 2) = Inr r
      \<and> length (Revenue (summary r)) = 2 \<and> length (FCF (summary r)) = 2
      \<and> Revenue (summary r) ! 0 = Fin 150 \<and> Revenue (summary r) ! 1 = Fin 225
      \<and> FCF (summary r) ! 1 =
           f64_sub (f64_sub (NOPAT (summary r) ! 1) (NWC_Change (summary r) ! 1))
             (CAPEX (summary r) ! 1))"
proof -
  have h: "(1::int) \<le> 2" "[Fin (1 / 2)] \<noteq> []" "[Fin (1 / 4)] \<noteq> []"
    "discount_powers_return (Fin (1 / 10)) (nat 2)"
    by (simp_all add: discount_powers_return_ge_one)
  from C1_projection_equations [OF h, of "Fin (1 / 5)" "Fin (1 / 10)" "Fin (1 / 20)"
      "Fin (1 / 50)" "Fin 100"]
  obtain r where r: "calculate_dcf [Fin (1 / 2)] [Fin (1 / 4)] (Fin (1 / 5)) (Fin (1 / 10))
          (Fin (1 / 20)) (Fin (1 / 10)) (Fin (1 / 50)) (Fin 100) (PInt 2) = Inr r"
    and len: "length (Revenue (summary r)) = nat 2" "length (FCF (summary r)) = nat 2"
    and r0: "Revenue (summary r) ! 0 = f64_mul (Fin 100)
               (f64_add (Fin 1) ([Fin (1 / 2)] ! spec_clamp 0 [Fin (1 / 2)]))"
    and ri: "\<forall>i. 0 < i \<and> i < nat 2 \<longrightarrow>
               Revenue (summary r) ! i = f64_mul (Revenue (summary r) ! (i - 1))
                 (f64_add (Fin 1) ([Fin (1 / 2)] ! spec_clamp i [Fin (1 / 2)]))"
    and fi: "\<forall>i. i < nat 2 \<longrightarrow> FCF (summary r) ! i =
               f64_sub (f64_sub (NOPAT (summary r) ! i) (NWC_Change (summary r) ! i))
                 (CAPEX (summary r) ! i)"
    by blast
  have r0': "Revenue (summary r) ! 0 = Fin 150" using r0 by (simp add: spec_clamp_def)
  have "Revenue (summary r) ! 1 = Fin 225"
    using spec [OF ri, of 1] r0' by (simp add: spec_clamp_def)
  moreover have "FCF (summary r) ! 1
      = f64_sub (f64_sub (NOPAT (summary r) ! 1) (NWC_Change (summary r) ! 1))
          (CAPEX (summary r) ! 1)"
    using spec [OF fi, of 1] by simp
  ultimately show ?thesis using r len r0' h by simp
qed

text \<open>
  Claim C1 as stated fails for \<^verbatim>\<open>discount_rate = -1\<close>: with two years and non-empty
  sequences \<^verbatim>\<open>calculate_dcf\<close> raises \<^verbatim>\<open>ZeroDivisionError\<close> on line 67 and returns no
  array.
\<close>

theorem C1_counterexample:
  "(1::int) \<le> 2 \<and> [Fin (1 / 2)] \<noteq> [] \<and> [Fin (1 / 4)] \<noteq> [] \<and>
   calculate_dcf [Fin (1 / 2)] [Fin (1 / 4)] (Fin (1 / 5)) (Fin (1 / 10)) (Fin (1 / 20))
       (Fin (- 1)) (Fin (- 2)) (Fin 100) (PInt 2) = Inl ZeroDivisionError"
  by (simp add: calculate_dcf_def dcf_projection_def dcf_valuation_def discount_factors_def
        Let_def numeral_2_eq_2)

text \<open>
  Claim C2, as amended. For \<^verbatim>\<open>years >= 1\<close>, non-empty sequences and
  \<^verbatim>\<open>discount_rate > terminal_growth_rate\<close>, when none of the powers
  \<^verbatim>\<open>(1 + discount_rate) ** -i\<close> of line 67 raises, \<^verbatim>\<open>calculate_dcf\<close> returns with
  \<^verbatim>\<open>terminal_value = fcf[years-1] * (1 + terminal_growth_rate) / (discount_rate - terminal_growth_rate)\<close>,
  \<^verbatim>\<open>discount_factor[i] = (1 + discount_rate) ** -(i+1)\<close>,
  \<^verbatim>\<open>pv_fcf[i] = fcf[i] * discount_factor[i]\<close>,
  \<^verbatim>\<open>pv_terminal_value = terminal_value * discount_factor[years-1]\<close> and
  \<^verbatim>\<open>enterprise_value\<close> the left-to-right sum of \<^verbatim>\<open>pv_fcf\<close> plus
  \<^verbatim>\<open>pv_terminal_value\<close>.
\<close>

theorem C2_valuation_equations:
  assumes "1 \<le> y" "growth \<noteq> []" "margins \<noteq> []"
    and "f64_less tgrowth disc"
    and "discount_powers_return disc (nat y)"
  shows "\<exists>r dfs.
           calculate_dcf growth margins tax nwc_pct capex_pct disc tgrowth init_rev (PInt y)
             = Inr r
         \<and> discount_factors disc (nat y) = Inr dfs
         \<and> length dfs = nat y \<and> length (PV_of_FCF (summary r)) = nat y
         \<and> length (FCF (summary r)) = nat y
         \<and> terminal_value r =
               np_divide (f64_mul (FCF (summary r) ! (nat y - 1)) (f64_add (Fin 1) tgrowth))
                 (f64_sub disc tgrowth)
         \<and> (\<forall>i. i < nat y \<longrightarrow>
               py_pow_neg (f64_add (Fin 1) disc) (i + 1) = Inr (dfs ! i)
             \<and> (\<forall>d. disc = Fin d \<longrightarrow> dfs ! i = Fin (1 / (1 + d) ^ (i + 1)))
             \<and> PV_of_FCF (summary r) ! i = f64_mul (FCF (summary r) ! i) (dfs ! i))
         \<and> enterprise_value r =
               f64_add (foldl f64_add (Fin 0) (PV_of_FCF (summary r)))
                 (f64_mul (terminal_value r) (dfs ! (nat y - 1)))"
proof -
  define n where "n = nat y"
  define b where "b = f64_add (Fin 1) disc"
  obtain p where p: "dcf_projection growth margins tax nwc_pct capex_pct init_rev (PInt y) = Inr p"
    using assms(1-3) by (simp add: dcf_projection_def Let_def)
  have n: "0 < n" using assms(1) by (simp add: n_def)
  have l_fcf: "length (p_fcf p) = n" using dcf_projection_fcf_length [OF p] by (simp add: n_def)
  from calculate_dcf_returns [OF p assms(5), where tg = tgrowth] obtain dfs
    where dfs: "discount_factors disc n = Inr dfs" and l_dfs: "length dfs = n"
      and res: "calculate_dcf growth margins tax nwc_pct capex_pct disc tgrowth init_rev (PInt y) =
               Inr \<lparr>enterprise_value =
                      f64_add (np_sum (map2 f64_mul (p_fcf p) dfs))
                        (f64_mul (terminal_value_of (p_fcf p) disc tgrowth) (last dfs)),
                    terminal_value = terminal_value_of (p_fcf p) disc tgrowth,
                    summary = \<lparr>Revenue = p_revenues p, EBIT = p_ebit p, NOPAT = p_nopat p,
                       NWC_Change = p_nwc_changes p, CAPEX = p_capex p, FCF = p_fcf p,
                       PV_of_FCF = map2 f64_mul (p_fcf p) dfs\<rparr>\<rparr>"
    unfolding n_def by blast
  define tv where "tv = terminal_value_of (p_fcf p) disc tgrowth"
  define pv where "pv = map2 f64_mul (p_fcf p) dfs"
  define r where "r = \<lparr>enterprise_value = f64_add (np_sum pv) (f64_mul tv (last dfs)),
                     terminal_value = tv,
                     summary = \<lparr>Revenue = p_revenues p, EBIT = p_ebit p, NOPAT = p_nopat p,
                       NWC_Change = p_nwc_changes p, CAPEX = p_capex p, FCF = p_fcf p,
                       PV_of_FCF = pv\<rparr>\<rparr>"
  have r: "calculate_dcf growth margins tax nwc_pct capex_pct disc tgrowth init_rev (PInt y)
             = Inr r"
    using res by (simp add: r_def pv_def tv_def)
  have "dfs \<noteq> []" using n l_dfs by auto
  then have last_dfs: "last dfs = dfs ! (n - 1)"
    using l_dfs by (simp add: last_conv_nth)
  have "p_fcf p \<noteq> []" using n l_fcf by auto
  then have last_fcf: "last (p_fcf p) = p_fcf p ! (n - 1)"
    using l_fcf by (simp add: last_conv_nth)
  have tv: "tv = np_divide (f64_mul (p_fcf p ! (n - 1)) (f64_add (Fin 1) tgrowth))
                   (f64_sub disc tgrowth)"
    by (simp add: tv_def terminal_value_of_def last_fcf)
  have dfs_eq: "dfs = map (\<lambda>j. projr (py_pow_neg b j)) [1..<1 + n]"
    using dfs discount_factors_return [OF assms(5)] by (simp add: n_def b_def)
  have pow: "py_pow_neg b (i + 1) = Inr (dfs ! i)" if "i < n" for i
  proof -
    from that have "\<not> isl (py_pow_neg b (i + 1))"
      unfolding b_def n_def by (intro discount_powers_return_nth [OF assms(5)]) simp_all
    from py_pow_neg_Inr [OF this] obtain d where d: "py_pow_neg b (i + 1) = Inr d" by blast
    have "dfs ! i = projr (py_pow_neg b (1 + i))"
      unfolding dfs_eq using that by (subst nth_map_upt) simp_all
    with d show ?thesis by simp
  qed
  have powfin: "dfs ! i = Fin (1 / (1 + d) ^ (i + 1))" if "i < n" "disc = Fin d" for i d
    using pow [OF that(1)] that(2) py_pow_neg_Fin_value [of "1 + d" "i + 1" "dfs ! i"]
    by (simp add: b_def)
  have pvi: "pv ! i = f64_mul (p_fcf p ! i) (dfs ! i)" if "i < n" for i
    using that l_fcf l_dfs by (simp add: pv_def)
  have l_pv: "length pv = n" by (simp add: pv_def l_fcf l_dfs)
  show ?thesis
    apply (rule exI [of _ r], rule exI [of _ dfs])
    using r dfs l_dfs l_pv l_fcf tv pow powfin pvi last_dfs
    by (simp add: r_def n_def b_def np_sum_def)
qed

theorem C2_valuation_equations_witness:
  "(1::int) \<le> 2 \<and> [Fin (1 / 2)] \<noteq> [] \<and> [Fin (1 / 4)] \<noteq> []
   \<and> f64_less (Fin (1 / 50)) (Fin (1 / 10)) \<and> discount_powers_return (Fin (1 / 10)) (nat 2) \<and>
   (\<exists>r dfs. calculate_dcf [Fin (1 / 2)] [Fin (1 / 4)] (Fin (1 / 5)) (Fin (1 / 10))
          (Fin (1 / 20)) (Fin (1 / 10)) (Fin (1 / 50)) (Fin 100) (PInt 2) = Inr r
      \<and> discount_factors (Fin (1 / 10)) 2 = Inr dfs \<and> length dfs = 2
      \<and> enterprise_value r =
            f64_add (foldl f64_add (Fin 0) (PV_of_FCF (summary r)))
              (f64_mul (terminal_value r) (dfs ! 1)))"
proof -
  have h: "(1::int) \<le> 2" "[Fin (1 / 2)] \<noteq> []" "[Fin (1 / 4)] \<noteq> []"
    "f64_less (Fin (1 / 50)) (Fin (1 / 10))" "discount_powers_return (Fin (1 / 10)) (nat 2)"
    by (simp_all add: discount_powers_return_ge_one)
  from C2_valuation_equations [OF h, of "Fin (1 / 5)" "Fin (1 / 10)" "Fin (1 / 20)" "Fin 100"]
  obtain r dfs where "calculate_dcf [Fin (1 / 2)] [Fin (1 / 4)] (Fin (1 / 5)) (Fin (1 / 10))
          (Fin (1 / 20)) (Fin (1 / 10)) (Fin (1 / 50)) (Fin 100) (PInt 2) = Inr r"
    "discount_factors (Fin (1 / 10)) (nat 2) = Inr dfs" "length dfs = nat 2"
    "enterprise_value r =
            f64_add (foldl f64_add (Fin 0) (PV_of_FCF (summary r)))
              (f64_mul (terminal_value r) (dfs ! (nat 2 - 1)))"
    by blast
  with h show ?thesis by auto
qed

text \<open>
  Claim C2 as stated fails for \<^verbatim>\<open>discount_rate = -1\<close>: the input below has
  \<^verbatim>\<open>years = 1\<close>, non-empty sequences and \<^verbatim>\<open>discount_rate > terminal_growth_rate\<close>,
  and \<^verbatim>\<open>(1 + discount_rate) ** -1\<close> raises \<^verbatim>\<open>ZeroDivisionError\<close>.
\<close>

theorem C2_counterexample:
  "(1::int) \<le> 1 \<and> [Fin 0] \<noteq> [] \<and> [Fin 1] \<noteq> [] \<and> f64_less (Fin (- 2)) (Fin (- 1)) \<and>
   calculate_dcf [Fin 0] [Fin 1] (Fin 0) (Fin 0) (Fin 0) (Fin (- 1)) (Fin (- 2)) (Fin 1) (PInt 1)
     = Inl ZeroDivisionError"
  by (simp add: calculate_dcf_def dcf_projection_def dcf_valuation_def discount_factors_def
        Let_def)


lemma dcf_projection_ok:
  "1 \<le> y \<Longrightarrow> g \<noteq> [] \<Longrightarrow> m \<noteq> [] \<Longrightarrow> \<exists>p. dcf_projection g m t w c r (PInt y) = Inr p"
  by (simp add: dcf_projection_def Let_def)

text \<open>
  Claim C3, as amended. \<^verbatim>\<open>calculate_dcf\<close> compares \<^verbatim>\<open>discount_rate\<close> and
  \<^verbatim>\<open>terminal_growth_rate\<close> nowhere and has no error for a divergent terminal value: for
  \<^verbatim>\<open>years >= 1\<close> and non-empty sequences, when none of the powers of line 67 raises, it
  returns a result whatever the order of the two rates, with the terminal value of line
  64; when the two rates are equal the division by zero is performed and the terminal
  value is an infinity or a NaN.
\<close>

theorem C3_no_divergence_check:
  assumes "1 \<le> y" "growth \<noteq> []" "margins \<noteq> []" "discount_powers_return disc (nat y)"
  shows "\<exists>r. calculate_dcf growth margins tax nwc_pct capex_pct disc tgrowth init_rev (PInt y)
               = Inr r
           \<and> terminal_value r =
               np_divide (f64_mul (last (FCF (summary r))) (f64_add (Fin 1) tgrowth))
                 (f64_sub disc tgrowth)
           \<and> (disc = tgrowth \<longrightarrow> \<not> is_finite (terminal_value r))"
proof -
  from dcf_projection_ok [OF assms(1-3)] obtain p
    where p: "dcf_projection growth margins tax nwc_pct capex_pct init_rev (PInt y) = Inr p"
    by blast
  from calculate_dcf_returns [OF p assms(4), where tg = tgrowth]
  obtain r where r: "calculate_dcf growth margins tax nwc_pct capex_pct disc tgrowth init_rev
                       (PInt y) = Inr r"
    and tv: "terminal_value r = terminal_value_of (FCF (summary r)) disc tgrowth"
    by auto
  have "\<not> is_finite (terminal_value r)" if "disc = tgrowth"
    using f64_sub_self [of disc] that
    by (auto simp: tv terminal_value_of_def Let_def np_divide_zero_not_finite
          np_divide_nan_not_finite)
  with r tv show ?thesis
    by (auto simp: terminal_value_of_def Let_def)
qed

theorem C3_no_divergence_check_witness:
  "(1::int) \<le> 1 \<and> [Fin 0] \<noteq> [] \<and> [Fin 1] \<noteq> []
   \<and> discount_powers_return (Fin (1 / 10)) (nat 1) \<and>
   (\<exists>r. calculate_dcf [Fin 0] [Fin 1] (Fin 0) (Fin 0) (Fin 0) (Fin (1 / 10)) (Fin (1 / 10))
          (Fin 1) (PInt 1) = Inr r \<and> \<not> is_finite (terminal_value r))"
proof -
  have h: "(1::int) \<le> 1" "[Fin 0] \<noteq> []" "[Fin 1] \<noteq> []"
    "discount_powers_return (Fin (1 / 10)) (nat 1)"
    by (simp_all add: discount_powers_return_ge_one)
  from C3_no_divergence_check [OF h, of "Fin 0" "Fin 0" "Fin 0" "Fin (1 / 10)" "Fin 1"] h
  show ?thesis by blast
qed

text \<open>
  Claim C3 as stated fails: with \<^verbatim>\<open>discount_rate == terminal_growth_rate == 0.1\<close> the
  call returns a result whose terminal value and enterprise value are \<^verbatim>\<open>inf\<close>.
\<close>

theorem C3_counterexample:
  "calculate_dcf [Fin 0] [Fin 1] (Fin 0) (Fin 0) (Fin 0) (Fin (1 / 10)) (Fin (1 / 10))
      (Fin 1) (PInt 1)
   = Inr \<lparr>enterprise_value = PInf, terminal_value = PInf,
          summary = \<lparr>Revenue = [Fin 1], EBIT = [Fin 1], NOPAT = [Fin 1], NWC_Change = [Fin 0],
            CAPEX = [Fin 0], FCF = [Fin 1], PV_of_FCF = [Fin (10 / 11)]\<rparr>\<rparr>"
  by (simp add: dcf_eval_defs)

text \<open>
  Claim C6, as amended. When \<^verbatim>\<open>years\<close> is an integer below 1 or one of the two
  sequences is empty, \<^verbatim>\<open>calculate_dcf\<close> returns no result: it raises \<^verbatim>\<open>ValueError\<close>
  for a negative \<^verbatim>\<open>years\<close> and \<^verbatim>\<open>IndexError\<close> otherwise.
\<close>

theorem C6_invalid_input_failures:
  assumes "y < 1 \<or> growth = [] \<or> margins = []"
  shows "calculate_dcf growth margins tax nwc_pct capex_pct disc tgrowth init_rev (PInt y)
           = Inl (if y < 0 then ValueError else IndexError)"
  using assms by (auto simp: calculate_dcf_def dcf_projection_def)

theorem C6_invalid_input_failures_witness:
  "((0::int) < 1 \<or> [Fin 0] = [] \<or> [Fin 1] = []) \<and>
   calculate_dcf [Fin 0] [Fin 1] (Fin 0) (Fin 0) (Fin 0) (Fin (1 / 10)) (Fin 0) (Fin 1) (PInt 0)
     = Inl IndexError"
  using C6_invalid_input_failures [of 0 "[Fin 0]" "[Fin 1]" "Fin 0" "Fin 0" "Fin 0"
      "Fin (1 / 10)" "Fin 0" "Fin 1"]
  by simp

text \<open>
  Claim C6 as stated fails for a non-finite rate: a NaN \<^verbatim>\<open>tax_rate\<close> raises nothing,
  and the call returns a result.
\<close>

theorem C6_counterexample:
  "calculate_dcf [Fin 0] [Fin 1] NaN (Fin 0) (Fin 0) (Fin (1 / 10)) (Fin 0) (Fin 1) (PInt 1)
   = Inr \<lparr>enterprise_value = NaN, terminal_value = NaN,
          summary = \<lparr>Revenue = [Fin 1], EBIT = [Fin 1], NOPAT = [NaN], NWC_Change = [Fin 0],
            CAPEX = [Fin 0], FCF = [NaN], PV_of_FCF = [NaN]\<rparr>\<rparr>"
  by (simp add: dcf_eval_defs)

section \<open>The claims about \<^verbatim>\<open>sensitivity_analysis\<close>\<close>

lemma key_of_inj: "key_of a = Some k \<Longrightarrow> key_of b = Some k \<Longrightarrow> a = b"
  by (auto simp: key_of_def split: if_splits)

lemma assumptions_get_set:
  "assumptions_set k v d = Inr m \<Longrightarrow> j \<noteq> k \<Longrightarrow> assumptions_get m j = assumptions_get d j"
  by (cases k; cases v; cases j) auto

lemma f64_mul_one: "f64_mul x (Fin 1) = x"
  by (cases x) (simp_all add: signed_inf_def)

lemma assumptions_set_growth:
  "assumptions_set k v (d::dcf_inputs) = Inr m \<Longrightarrow> revenue_growth_rates m = revenue_growth_rates d"
  by (cases k; cases v) auto

lemma assumptions_modify:
  assumes "assumptions_get d k = Inr bv"
  shows "\<exists>v m. modified_value bv p = Inr v \<and> assumptions_set k v d = Inr m
           \<and> assumptions_get m k = Inr v
           \<and> (\<forall>xs. bv = PList xs \<longrightarrow>
                 v = PList (map (\<lambda>x. f64_mul x (f64_add (Fin 1) p)) xs))
           \<and> (\<forall>x. bv = PNum x \<longrightarrow>
                 v = PNum (PFloat (f64_mul (as_float x) (f64_add (Fin 1) p))))
           \<and> (\<forall>t. bv \<noteq> PTuple t)"
  using assms by (cases k) (auto simp: modified_value_def split: option.split_asm)

lemma dcf_get_key:
  assumes "dcf_get base var = Inr bv"
  shows "\<exists>k. key_of var = Some k
           \<and> (k = K_revenue_growth_rates \<longrightarrow> bv = PList (revenue_growth_rates base))
           \<and> (k \<noteq> K_revenue_growth_rates \<longrightarrow> assumptions_get base k = Inr bv)"
proof (cases "key_of var")
  case None
  with assms show ?thesis by (simp add: dcf_get_def)
next
  case (Some k)
  with assms show ?thesis
    by (cases k) (simp_all add: dcf_get_def)
qed

lemma dcf_get_other:
  assumes "key_of var = Some k" "key_of var' = Some j" "j \<noteq> k"
    and "dcf_set var v d = Inr m"
  shows "dcf_get m var' = dcf_get d var'"
proof (cases "k = K_revenue_growth_rates")
  case True
  with assms(1,4) obtain xs where m: "m = d\<lparr>revenue_growth_rates := xs\<rparr>"
    by (auto simp: dcf_set_def split: pyval.splits)
  from assms(2,3) True show ?thesis
    by (cases j) (simp_all add: dcf_get_def m)
next
  case False
  with assms(1,4) have set: "assumptions_set k v d = Inr m"
    by (cases k) (simp_all add: dcf_set_def)
  show ?thesis
  proof (cases "j = K_revenue_growth_rates")
    case True
    with assms(2) assumptions_set_growth [OF set] show ?thesis
      by (simp add: dcf_get_def)
  next
    case False
    with assms(2) assumptions_get_set [OF set assms(3)] show ?thesis
      by (cases j) (simp_all add: dcf_get_def)
  qed
qed

lemma modified_inputs_frame:
  assumes "dcf_get base var = Inr bv"
  shows "\<exists>m. modified_inputs base var p = Inr m
           \<and> (\<forall>xs. bv = PList xs \<longrightarrow>
                 dcf_get m var = Inr (PList (map (\<lambda>x. f64_mul x (f64_add (Fin 1) p)) xs)))
           \<and> (\<forall>x. bv = PNum x \<longrightarrow>
                 dcf_get m var = Inr (PNum (PFloat (f64_mul (as_float x) (f64_add (Fin 1) p)))))
           \<and> (\<forall>t. bv \<noteq> PTuple t)
           \<and> (\<forall>var'. var' \<noteq> var \<longrightarrow> dcf_get m var' = dcf_get base var')"
proof -
  from dcf_get_key [OF assms] obtain k where k: "key_of var = Some k"
    and kg: "k = K_revenue_growth_rates \<Longrightarrow> bv = PList (revenue_growth_rates base)"
    and ka: "k \<noteq> K_revenue_growth_rates \<Longrightarrow> assumptions_get base k = Inr bv"
    by blast
  have "\<exists>v m. modified_value bv p = Inr v \<and> dcf_set var v base = Inr m
           \<and> dcf_get m var = Inr v
           \<and> (\<forall>xs. bv = PList xs \<longrightarrow>
                 v = PList (map (\<lambda>x. f64_mul x (f64_add (Fin 1) p)) xs))
           \<and> (\<forall>x. bv = PNum x \<longrightarrow>
                 v = PNum (PFloat (f64_mul (as_float x) (f64_add (Fin 1) p))))
           \<and> (\<forall>t. bv \<noteq> PTuple t)"
  proof (cases "k = K_revenue_growth_rates")
    case True
    with k kg show ?thesis
      by (simp add: modified_value_def dcf_set_def dcf_get_def)
  next
    case False
    from assumptions_modify [OF ka [OF False], of p] obtain v m
      where "modified_value bv p = Inr v" "assumptions_set k v base = Inr m"
        "assumptions_get m k = Inr v"
        "\<forall>xs. bv = PList xs \<longrightarrow> v = PList (map (\<lambda>x. f64_mul x (f64_add (Fin 1) p)) xs)"
        "\<forall>x. bv = PNum x \<longrightarrow> v = PNum (PFloat (f64_mul (as_float x) (f64_add (Fin 1) p)))"
        "\<forall>t. bv \<noteq> PTuple t"
      by blast
    with k False show ?thesis
      by (cases k) (simp_all add: dcf_set_def dcf_get_def)
  qed
  then obtain v m where v: "modified_value bv p = Inr v" and m: "dcf_set var v base = Inr m"
    and get: "dcf_get m var = Inr v"
    and shape: "\<forall>xs. bv = PList xs \<longrightarrow> v = PList (map (\<lambda>x. f64_mul x (f64_add (Fin 1) p)) xs)"
       "\<forall>x. bv = PNum x \<longrightarrow> v = PNum (PFloat (f64_mul (as_float x) (f64_add (Fin 1) p)))"
       "\<forall>t. bv \<noteq> PTuple t"
    by blast
  have run: "modified_inputs base var p = Inr m"
    using assms v m by (simp add: modified_inputs_def)
  have frame: "dcf_get m var' = dcf_get base var'" if "var' \<noteq> var" for var'
  proof (cases "key_of var'")
    case None
    then show ?thesis by (simp add: dcf_get_def)
  next
    case (Some j)
    with k that have "j \<noteq> k" using key_of_inj by blast
    from dcf_get_other [OF k Some this m] show ?thesis .
  qed
  from run get shape frame show ?thesis by auto
qed

text \<open>
  Claim C8. For a variable that is a key of \<^verbatim>\<open>base_inputs\<close> and every perturbation,
  the dictionary passed to \<^verbatim>\<open>calculate_dcf\<close> holds under that key the scaled value
  (every element times \<^verbatim>\<open>1 + pct_change\<close> for a list, the value times
  \<^verbatim>\<open>1 + pct_change\<close> for a number) and under every other key what \<^verbatim>\<open>base_inputs\<close>
  holds there.
\<close>

theorem C8_modified_inputs_frame:
  assumes "dcf_get base_inputs var = Inr base_var_value"
  shows "\<exists>m. modified_inputs base_inputs var pct_change = Inr m
           \<and> sensitivity_row base_inputs base_value var pct_change =
               (case call_calculate_dcf m of
                  Inl e \<Rightarrow> Inl e
                | Inr r \<Rightarrow>
                    Inr \<lparr>change_in_input = pct_change,
                         row_enterprise_value = enterprise_value r,
                         value_change = np_divide (f64_sub (enterprise_value r) base_value)
                                          base_value\<rparr>)
           \<and> (\<forall>xs. base_var_value = PList xs \<longrightarrow>
                 dcf_get m var =
                   Inr (PList (map (\<lambda>x. f64_mul x (f64_add (Fin 1) pct_change)) xs)))
           \<and> (\<forall>x. base_var_value = PNum x \<longrightarrow>
                 dcf_get m var =
                   Inr (PNum (PFloat (f64_mul (as_float x) (f64_add (Fin 1) pct_change)))))
           \<and> (\<forall>t. base_var_value \<noteq> PTuple t)
           \<and> (\<forall>var'. var' \<noteq> var \<longrightarrow> dcf_get m var' = dcf_get base_inputs var')"
proof -
  from modified_inputs_frame [OF assms, of pct_change] obtain m
    where m: "modified_inputs base_inputs var pct_change = Inr m"
      and rest: "\<forall>xs. base_var_value = PList xs \<longrightarrow>
                 dcf_get m var =
                   Inr (PList (map (\<lambda>x. f64_mul x (f64_add (Fin 1) pct_change)) xs))"
        "\<forall>x. base_var_value = PNum x \<longrightarrow>
                 dcf_get m var =
                   Inr (PNum (PFloat (f64_mul (as_float x) (f64_add (Fin 1) pct_change))))"
        "\<forall>t. base_var_value \<noteq> PTuple t"
        "\<forall>var'. var' \<noteq> var \<longrightarrow> dcf_get m var' = dcf_get base_inputs var'"
    by blast
  have "sensitivity_row base_inputs base_value var pct_change =
               (case call_calculate_dcf m of
                  Inl e \<Rightarrow> Inl e
                | Inr r \<Rightarrow>
                    Inr \<lparr>change_in_input = pct_change,
                         row_enterprise_value = enterprise_value r,
                         value_change = np_divide (f64_sub (enterprise_value r) base_value)
                                          base_value\<rparr>)"
    by (simp add: sensitivity_row_def m Let_def split: sum.splits)
  with m rest show ?thesis by blast
qed


theorem C8_modified_inputs_frame_witness:
  "dcf_get small_inputs ''tax_rate'' = Inr (PNum (PFloat (Fin (1 / 5)))) \<and>
   (\<exists>m. modified_inputs small_inputs ''tax_rate'' (Fin (1 / 10)) = Inr m
      \<and> dcf_get m ''tax_rate'' = Inr (PNum (PFloat (Fin (11 / 50))))
      \<and> (\<forall>var'. var' \<noteq> ''tax_rate'' \<longrightarrow> dcf_get m var' = dcf_get small_inputs var'))"
proof -
  have h: "dcf_get small_inputs ''tax_rate'' = Inr (PNum (PFloat (Fin (1 / 5))))"
    by (simp add: dcf_get_def key_of_def small_inputs_def)
  from C8_modified_inputs_frame [OF h, of "Fin (1 / 10)" "Fin 0"] h show ?thesis
    by auto
qed

lemma assumptions_identity:
  "k \<noteq> K_years \<Longrightarrow> assumptions_get d k = Inr bv \<Longrightarrow>
     \<exists>v. modified_value bv (Fin 0) = Inr v \<and> assumptions_set k v d = Inr d"
  by (cases k) (auto simp: modified_value_def f64_mul_one)

lemma modified_inputs_identity:
  assumes "var \<noteq> ''years''" "dcf_get base var = Inr bv"
  shows "modified_inputs base var (Fin 0) = Inr base"
proof -
  from dcf_get_key [OF assms(2)] obtain k where k: "key_of var = Some k"
    and kg: "k = K_revenue_growth_rates \<Longrightarrow> bv = PList (revenue_growth_rates base)"
    and ka: "k \<noteq> K_revenue_growth_rates \<Longrightarrow> assumptions_get base k = Inr bv"
    by blast
  have "key_of ''years'' = Some K_years" by (simp add: key_of_def)
  with k assms(1) have ky: "k \<noteq> K_years" using key_of_inj by blast
  show ?thesis
  proof (cases "k = K_revenue_growth_rates")
    case True
    with k kg assms(2) show ?thesis
      by (simp add: modified_inputs_def modified_value_def dcf_set_def f64_mul_one)
  next
    case False
    from assumptions_identity [OF ky ka [OF False]] obtain v
      where "modified_value bv (Fin 0) = Inr v" "assumptions_set k v base = Inr base"
      by blast
    with k False assms(2) show ?thesis
      by (cases k) (simp_all add: modified_inputs_def dcf_set_def)
  qed
qed

text \<open>
  Claim C7, as amended. For every key of \<^verbatim>\<open>base_inputs\<close> other than \<^verbatim>\<open>years\<close>, when
  the base enterprise value is finite and not zero, the perturbation \<^verbatim>\<open>0.0\<close> gives a
  row with the base enterprise value and a value change of 0.
\<close>

theorem C7_zero_perturbation:
  assumes "var \<noteq> ''years''" "dcf_get base_inputs var = Inr base_var_value"
    and "call_calculate_dcf base_inputs = Inr r" "enterprise_value r = Fin v" "v \<noteq> 0"
  shows "sensitivity_row base_inputs (enterprise_value r) var (Fin 0)
           = Inr \<lparr>change_in_input = Fin 0, row_enterprise_value = Fin v, value_change = Fin 0\<rparr>
       \<and> sensitivity_analysis base_inputs [var] [(var, [Fin 0])]
           = Inr [(var, [\<lparr>change_in_input = Fin 0, row_enterprise_value = Fin v,
                          value_change = Fin 0\<rparr>])]"
proof -
  have m: "modified_inputs base_inputs var (Fin 0) = Inr base_inputs"
    by (rule modified_inputs_identity [OF assms(1,2)])
  have row: "sensitivity_row base_inputs (enterprise_value r) var (Fin 0)
           = Inr \<lparr>change_in_input = Fin 0, row_enterprise_value = Fin v, value_change = Fin 0\<rparr>"
    using assms(3-5) by (simp add: sensitivity_row_def m Let_def f64_sub_def)
  then have "sensitivity_analysis base_inputs [var] [(var, [Fin 0])]
           = Inr [(var, [\<lparr>change_in_input = Fin 0, row_enterprise_value = Fin v,
                          value_change = Fin 0\<rparr>])]"
    using assms(2,3) by (simp add: sensitivity_analysis_def)
  with row show ?thesis by simp
qed

lemma small_inputs_value:
  "call_calculate_dcf small_inputs
     = Inr \<lparr>enterprise_value = Fin (775 / 4), terminal_value = Fin (15810 / 80),
            summary = \<lparr>Revenue = [Fin 110], EBIT = [Fin (55 / 2)], NOPAT = [Fin 22],
              NWC_Change = [Fin 1], CAPEX = [Fin (11 / 2)], FCF = [Fin (31 / 2)],
              PV_of_FCF = [Fin (155 / 11)]\<rparr>\<rparr>"
  by (simp add: call_calculate_dcf_def small_inputs_def dcf_eval_defs)

theorem C7_zero_perturbation_witness:
  "''tax_rate'' \<noteq> ''years''
   \<and> dcf_get small_inputs ''tax_rate'' = Inr (PNum (PFloat (Fin (1 / 5))))
   \<and> map_sum id enterprise_value (call_calculate_dcf small_inputs) = Inr (Fin (775 / 4))
   \<and> (775 / 4 :: real) \<noteq> 0
   \<and> sensitivity_analysis small_inputs [''tax_rate''] [(''tax_rate'', [Fin 0])]
       = Inr [(''tax_rate'', [\<lparr>change_in_input = Fin 0, row_enterprise_value = Fin (775 / 4),
                               value_change = Fin 0\<rparr>])]"
proof -
  have h: "''tax_rate'' \<noteq> ''years''"
    "dcf_get small_inputs ''tax_rate'' = Inr (PNum (PFloat (Fin (1 / 5))))"
    by (simp_all add: dcf_get_def key_of_def small_inputs_def)
  have e: "enterprise_value \<lparr>enterprise_value = Fin (775 / 4), terminal_value = Fin (15810 / 80),
            summary = \<lparr>Revenue = [Fin 110], EBIT = [Fin (55 / 2)], NOPAT = [Fin 22],
              NWC_Change = [Fin 1], CAPEX = [Fin (11 / 2)], FCF = [Fin (31 / 2)],
              PV_of_FCF = [Fin (155 / 11)]\<rparr>\<rparr> = Fin (775 / 4)" "(775 / 4 :: real) \<noteq> 0"
    by simp_all
  from C7_zero_perturbation [OF h small_inputs_value e] h show ?thesis
    by (simp add: small_inputs_value)
qed

text \<open>
  Claim C7 as stated fails for the variable \<^verbatim>\<open>years\<close>: \<^verbatim>\<open>1 * (1 + 0.0)\<close> is the float
  \<^verbatim>\<open>1.0\<close>, which \<^verbatim>\<open>np.zeros\<close> rejects with \<^verbatim>\<open>TypeError\<close>.
\<close>

theorem C7_counterexample:
  "dcf_get small_inputs ''years'' = Inr (PNum (PInt 1))
   \<and> map_sum id enterprise_value (call_calculate_dcf small_inputs) = Inr (Fin (775 / 4))
   \<and> sensitivity_analysis small_inputs [''years''] [(''years'', [Fin 0])] = Inl TypeError"
proof -
  have get: "dcf_get small_inputs ''years'' = Inr (PNum (PInt 1))"
    by (simp add: dcf_get_def key_of_def small_inputs_def)
  have "modified_inputs small_inputs ''years'' (Fin 0)
          = Inr (small_inputs\<lparr>years := Some (PFloat (Fin 1))\<rparr>)"
    by (simp add: modified_inputs_def get modified_value_def dcf_set_def key_of_def)
  moreover have "call_calculate_dcf (small_inputs\<lparr>years := Some (PFloat (Fin 1))\<rparr>)
                   = Inl TypeError"
    by (simp add: call_calculate_dcf_def calculate_dcf_def dcf_projection_def)
  ultimately have "sensitivity_row small_inputs (Fin (775 / 4)) ''years'' (Fin 0) = Inl TypeError"
    by (simp add: sensitivity_row_def)
  then show ?thesis
    by (simp add: get small_inputs_value sensitivity_analysis_def)
qed

section \<open>The claims about \<^verbatim>\<open>reverse_dcf\<close> and \<^verbatim>\<open>reverse_dcf_sensitivity\<close>\<close>

text \<open>
  Claim C5, as amended. When the candidate set is empty (the step is not zero and
  \<^verbatim>\<open>(max_growth - min_growth) / step\<close> is not positive, as for
  \<^verbatim>\<open>min_growth >= max_growth\<close> with a positive step), the loop body never runs and
  \<^verbatim>\<open>reverse_dcf\<close> returns \<^verbatim>\<open>None\<close>; it raises nothing.
\<close>

theorem C5_empty_grid_returns_None:
  assumes "iteration_range q = Some (min_growth, max_growth, step)"
    and "step \<noteq> 0" "(max_growth - min_growth) / step \<le> 0"
  shows "growth_grid q = Inr [] \<and> reverse_dcf q = Inr None"
proof -
  have "\<lceil>(max_growth - min_growth) / step\<rceil> \<le> 0"
    using assms(3) by (simp add: ceiling_le_iff)
  then have "growth_grid q = Inr []"
    using assms(1,2) by (simp add: growth_grid_def np_arange_def)
  then show ?thesis by (simp add: reverse_dcf_def)
qed

theorem C5_empty_grid_returns_None_witness:
  "iteration_range (small_query\<lparr>iteration_range := Some (1 / 2, 0, 1 / 1000)\<rparr>)
     = Some (1 / 2, 0, 1 / 1000)
   \<and> (1 / 1000 :: real) \<noteq> 0 \<and> ((0 :: real) - 1 / 2) / (1 / 1000) \<le> 0
   \<and> reverse_dcf (small_query\<lparr>iteration_range := Some (1 / 2, 0, 1 / 1000)\<rparr>) = Inr None"
  using C5_empty_grid_returns_None
    [of "small_query\<lparr>iteration_range := Some (1 / 2, 0, 1 / 1000)\<rparr>" "1 / 2" 0 "1 / 1000"]
  by simp

text \<open>
  Claim C5 as stated fails: with the range \<^verbatim>\<open>(0.5, 0, 0.1)\<close> the call returns
  normally, with the value \<^verbatim>\<open>None\<close>.
\<close>

theorem C5_counterexample:
  "reverse_dcf (small_query\<lparr>iteration_range := Some (1 / 2, 0, 1 / 10)\<rparr>) = Inr None"
  by (simp add: reverse_dcf_def growth_grid_def np_arange_def)

text \<open>
  The scaled value of \<^verbatim>\<open>reverse_dcf_sensitivity\<close> is a number whenever the
  multiplication succeeds, and it is stored under the key of a number.
\<close>

lemma reverse_set_scaled:
  assumes "reverse_get d var = Inr bv" "py_mul_float bv f = Inr v"
  shows "\<exists>m. reverse_set var v d = Inr m"
proof -
  from assms(2) obtain x where bv: "bv = PNum x" and v: "v = PNum (PFloat (f64_mul (as_float x) f))"
    by (cases bv) auto
  from assms(1) obtain k where k: "key_of var = Some k"
    by (cases "key_of var") (simp_all add: reverse_get_def)
  with assms(1) bv v show ?thesis
    by (cases k) (auto simp: reverse_get_def reverse_set_def split: option.splits)
qed

lemma small_query_grid: "growth_grid small_query = Inr [0, 1 / 10]"
  by (simp add: growth_grid_def small_query_def np_arange_def upt_rec)

lemma small_query_difference_0:
  "candidate_difference small_query (Fin 0) = Inr (Fin (125 / 2))"
  by (simp add: candidate_difference_def candidate_dcf_def target_ev_of_def small_query_def
        dcf_eval_defs)

lemma small_query_difference_1:
  "candidate_difference small_query (Fin (1 / 10)) = Inr (Fin (225 / 4))"
  by (simp add: candidate_difference_def candidate_dcf_def target_ev_of_def small_query_def
        dcf_eval_defs)

lemma small_query_growth: "reverse_dcf small_query = Inr (Some (Fin (1 / 10)))"
  unfolding reverse_dcf_def small_query_grid
  by (simp add: small_query_difference_0 small_query_difference_1)

text \<open>
  Claim C9 fails on the code for a sequence-valued field: line 254 multiplies the list
  \<^verbatim>\<open>ebit_margins\<close> by the float \<^verbatim>\<open>1 + pct_change\<close>, which raises \<^verbatim>\<open>TypeError\<close>;
  the branch for lists of \<^verbatim>\<open>sensitivity_analysis\<close> is missing here.
\<close>

theorem C9_list_field_raises:
  "reverse_dcf_sensitivity small_query [''ebit_margins''] [(''ebit_margins'', [Fin (1 / 10)])]
     = Inl TypeError"
  by (simp add: reverse_dcf_sensitivity_def small_query_growth reverse_get_def key_of_def
        reverse_row_of_def)


section \<open>The scan of \<^verbatim>\<open>reverse_dcf\<close>\<close>






lemma dcf_projection_no_zero_division:
  "dcf_projection g m t w c r y \<noteq> Inl ZeroDivisionError"
  by (simp add: dcf_projection_def Let_def split: pynum.splits)

lemma calculate_dcf_no_zero_division:
  assumes "f64_add (Fin 1) d \<noteq> Fin 0"
  shows "calculate_dcf g m t w c d tg r y \<noteq> Inl ZeroDivisionError"
proof (cases "dcf_projection g m t w c r y")
  case (Inl e)
  with dcf_projection_no_zero_division [of g m t w c r y] show ?thesis
    by (simp add: calculate_dcf_def)
next
  case (Inr p)
  show ?thesis
  proof (cases y)
    case (PInt n)
    from discount_factors_from_no_zero_division [OF assms, of 1 "nat n"]
    have "discount_factors d (nat n) \<noteq> Inl ZeroDivisionError"
      by (simp add: discount_factors_def)
    with Inr PInt show ?thesis
      by (auto simp: calculate_dcf_def dcf_valuation_def Let_def split: sum.splits)
  next
    case (PFloat f)
    with Inr show ?thesis by (simp add: calculate_dcf_def)
  qed
qed

lemma calculate_dcf_terminal_value:
  "calculate_dcf g m t w c d tg r y = Inr res \<Longrightarrow>
     terminal_value res = terminal_value_of (FCF (summary res)) d tg"
  by (auto simp: calculate_dcf_def dcf_valuation_def Let_def split: sum.splits pynum.splits)

text \<open>
  Claim C10, as amended. A candidate \<open>g\<close> is passed to \<^verbatim>\<open>calculate_dcf\<close> as the growth
  rates only. For a query with \<^verbatim>\<open>discount_rate > terminal_growth_rate\<close> and
  \<^verbatim>\<open>1 + discount_rate\<close> not zero, no valuation of a candidate raises
  \<^verbatim>\<open>ZeroDivisionError\<close>, and the divisor of the terminal value is the positive number
  \<^verbatim>\<open>discount_rate - terminal_growth_rate\<close> whatever \<open>g\<close> is.
\<close>

theorem C10_candidate_never_divides_by_zero:
  assumes "discount_rate q = Fin d" "terminal_growth_rate q = Fin tg" "tg < d" "1 + d \<noteq> 0"
  shows "candidate_dcf q g \<noteq> Inl ZeroDivisionError \<and> 0 < d - tg
       \<and> (\<forall>r. candidate_dcf q g = Inr r \<longrightarrow>
             terminal_value r =
               np_divide (f64_mul (last (FCF (summary r))) (Fin (1 + tg))) (Fin (d - tg)))
       \<and> (\<forall>y. (case years q of None \<Rightarrow> PInt 5 | Some y \<Rightarrow> y) = PInt y \<longrightarrow>
             candidate_dcf q g =
               calculate_dcf (replicate (nat y) g) (ebit_margins q) (tax_rate q) (nwc_percent q)
                 (capex_percent q) (discount_rate q) (terminal_growth_rate q)
                 (initial_revenue q) (PInt y))"
proof -
  have b: "f64_add (Fin 1) (discount_rate q) \<noteq> Fin 0"
    using assms(1,4) by simp
  have no_zd: "candidate_dcf q g \<noteq> Inl ZeroDivisionError"
    using calculate_dcf_no_zero_division [OF b]
    by (simp add: candidate_dcf_def Let_def split: pynum.splits)
  have tv: "terminal_value r =
              np_divide (f64_mul (last (FCF (summary r))) (Fin (1 + tg))) (Fin (d - tg))"
    if "candidate_dcf q g = Inr r" for r
  proof -
    from that obtain y where "calculate_dcf (replicate (nat y) g) (ebit_margins q) (tax_rate q)
        (nwc_percent q) (capex_percent q) (discount_rate q) (terminal_growth_rate q)
        (initial_revenue q) (PInt y) = Inr r"
      by (auto simp: candidate_dcf_def Let_def split: pynum.splits)
    from calculate_dcf_terminal_value [OF this] assms(1,2) show ?thesis
      by (simp add: terminal_value_of_def f64_sub_def)
  qed
  have call: "candidate_dcf q g =
               calculate_dcf (replicate (nat y) g) (ebit_margins q) (tax_rate q) (nwc_percent q)
                 (capex_percent q) (discount_rate q) (terminal_growth_rate q)
                 (initial_revenue q) (PInt y)"
    if "(case years q of None \<Rightarrow> PInt 5 | Some y \<Rightarrow> y) = PInt y" for y
    using that by (simp add: candidate_dcf_def Let_def)
  from no_zd assms(3) tv call show ?thesis by simp
qed

lemma small_query_candidate:
  "candidate_dcf small_query (Fin (1 / 2))
     = Inr \<lparr>enterprise_value = Fin (875 / 4), terminal_value = Fin (1785 / 8),
            summary = \<lparr>Revenue = [Fin 150], EBIT = [Fin (75 / 2)], NOPAT = [Fin 30],
              NWC_Change = [Fin 5], CAPEX = [Fin (15 / 2)], FCF = [Fin (35 / 2)],
              PV_of_FCF = [Fin (175 / 11)]\<rparr>\<rparr>"
  by (simp add: candidate_dcf_def small_query_def dcf_eval_defs)

theorem C10_candidate_never_divides_by_zero_witness:
  "discount_rate small_query = Fin (1 / 10) \<and> terminal_growth_rate small_query = Fin (1 / 50)
   \<and> (1 / 50 :: real) < 1 / 10 \<and> (1 :: real) + 1 / 10 \<noteq> 0
   \<and> candidate_dcf small_query (Fin (1 / 2)) \<noteq> Inl ZeroDivisionError
   \<and> (\<exists>r. candidate_dcf small_query (Fin (1 / 2)) = Inr r
         \<and> terminal_value r =
             np_divide (f64_mul (last (FCF (summary r))) (Fin (1 + 1 / 50)))
               (Fin (1 / 10 - 1 / 50)))"
proof -
  have h: "discount_rate small_query = Fin (1 / 10)"
    "terminal_growth_rate small_query = Fin (1 / 50)"
    "(1 / 50 :: real) < 1 / 10" "(1 :: real) + 1 / 10 \<noteq> 0"
    by (simp_all add: small_query_def)
  from C10_candidate_never_divides_by_zero [OF h, of "Fin (1 / 2)"] h small_query_candidate
  show ?thesis by blast
qed

text \<open>
  Claim C10 as stated fails for \<^verbatim>\<open>discount_rate = -1\<close>, which is above the terminal
  growth rate \<^verbatim>\<open>-2\<close>: the valuation of the candidate \<^verbatim>\<open>0.0\<close> raises
  \<^verbatim>\<open>ZeroDivisionError\<close> in the discount factor \<^verbatim>\<open>(1 + discount_rate) ** -1\<close>.
\<close>

theorem C10_counterexample:
  "f64_less (terminal_growth_rate
       (small_query\<lparr>discount_rate := Fin (- 1), terminal_growth_rate := Fin (- 2)\<rparr>))
     (discount_rate
       (small_query\<lparr>discount_rate := Fin (- 1), terminal_growth_rate := Fin (- 2)\<rparr>))
   \<and> candidate_dcf
        (small_query\<lparr>discount_rate := Fin (- 1), terminal_growth_rate := Fin (- 2)\<rparr>) (Fin 0)
      = Inl ZeroDivisionError"
  by (simp add: candidate_dcf_def small_query_def dcf_eval_defs)

end
